theory Spec2Isabelle
  imports Complex_Main "HOL-Library.Char_ord" "HOL-Library.List_Lexorder"
begin

section \<open>Values, errors and text\<close>

text \<open>
  The values that travel between the managers and the store: a JavaScript \<open>null\<close>, an
  integral number, a string, and a non-integral number (the \<open>NUMERIC\<close> column
  \<open>equity\<close>; the store hands it back as decimal text, the model keeps the number).
\<close>

datatype val = Null | IntV int | TextV string | NumV rat

text \<open>
  Modelled from the spec: the error classes. \<open>expressError\<close> is not among the source
  files; the managers import and throw \<open>BadRequestError\<close> and \<open>NotFoundError\<close>, and
  a store-level failure of \<open>db.query\<close> passes through them uncaught.
  \<open>DuplicateError\<close> is section 7's; no source file declares or throws it.
\<close>

datatype error =
    BadRequestError string
  | NotFoundError string
  | DuplicateError string
  | StoreError string

abbreviation dquote :: char where "dquote \<equiv> CHR 0x22"
abbreviation apos :: char where "apos \<equiv> CHR 0x27"

text \<open>\<open>String(n)\<close> for a non-negative integer, and for an integer.\<close>

definition digit_char :: "nat \<Rightarrow> char" where
  "digit_char d = ''0123456789'' ! d"

fun show_nat :: "nat \<Rightarrow> string" where
  "show_nat n =
     (if n < 10 then [digit_char n] else show_nat (n div 10) @ [digit_char (n mod 10)])"

definition show_int :: "int \<Rightarrow> string" where
  "show_int i = (if i < 0 then CHR ''-'' # show_nat (nat (- i)) else show_nat (nat i))"

text \<open>\<open>Array.prototype.join\<close>.\<close>

fun join :: "string \<Rightarrow> string list \<Rightarrow> string" where
  "join sep [] = []"
| "join sep [x] = x"
| "join sep (x # y # ys) = x @ sep @ join sep (y # ys)"

section \<open>helpers/sql.js\<close>

text \<open>
  A JavaScript object is an association list in the iteration order of its keys.
\<close>

type_synonym js_object = "(string \<times> val) list"

text \<open>
  The alias mapping is an ordinary object: the properties it was written with, their
  values strings, and behind them the properties that every object inherits from
  \<open>Object.prototype\<close>. The read \<open>jsToSql[colName]\<close> finds an own property first and an
  inherited one next: the constructor \<open>Object\<close>, one of the native methods, or, under
  \<open>__proto__\<close>, the prototype object itself.
\<close>

datatype js_value = Undefined | Str string | Native_function string | Prototype_object

definition Object_prototype :: "string \<Rightarrow> js_value" where
  "Object_prototype k =
     (if k = ''constructor'' then Native_function ''Object''
      else if k \<in> set [''__defineGetter__'', ''__defineSetter__'', ''hasOwnProperty'',
                        ''__lookupGetter__'', ''__lookupSetter__'', ''isPrototypeOf'',
                        ''propertyIsEnumerable'', ''toString'', ''valueOf'', ''toLocaleString'']
      then Native_function k
      else if k = ''__proto__'' then Prototype_object
      else Undefined)"

definition get_property :: "(string \<rightharpoonup> string) \<Rightarrow> string \<Rightarrow> js_value" where
  "get_property obj k = (case obj k of Some a \<Rightarrow> Str a | None \<Rightarrow> Object_prototype k)"

text \<open>
  \<open>a || b\<close> is \<open>a\<close> when \<open>a\<close> is truthy: every value here but \<open>undefined\<close> and the empty
  string. A template literal writes a value as \<open>String\<close> does.
\<close>

definition truthy :: "js_value \<Rightarrow> bool" where
  "truthy v = (case v of Undefined \<Rightarrow> False | Str s \<Rightarrow> s \<noteq> [] | _ \<Rightarrow> True)"

definition template_text :: "js_value \<Rightarrow> string" where
  "template_text v =
     (case v of
        Undefined \<Rightarrow> ''undefined''
      | Str s \<Rightarrow> s
      | Native_function f \<Rightarrow> ''function '' @ f @ ''() { [native code] }''
      | Prototype_object \<Rightarrow> ''[object Object]'')"

text \<open>\<open>jsToSql[colName] || colName\<close>, as the template literal writes it.\<close>

definition storage_name :: "(string \<rightharpoonup> string) \<Rightarrow> string \<Rightarrow> string" where
  "storage_name jsToSql colName =
     (let alias = get_property jsToSql colName
      in if truthy alias then template_text alias else colName)"

text \<open>
  The storage name in the words of section 4.3: the alias of a field that has one, the
  field's own name otherwise.
\<close>

definition alias_or_name :: "(string \<rightharpoonup> string) \<Rightarrow> string \<Rightarrow> string" where
  "alias_or_name jsToSql colName =
     (case jsToSql colName of None \<Rightarrow> colName | Some a \<Rightarrow> if a = [] then colName else a)"

definition assignment :: "(string \<rightharpoonup> string) \<Rightarrow> string \<Rightarrow> nat \<Rightarrow> string" where
  "assignment jsToSql colName idx =
     [dquote] @ storage_name jsToSql colName @ [dquote] @ ''=$'' @ show_nat (idx + 1)"

record partial_update =
  setCols :: string
  values' :: "val list"

definition sqlForPartialUpdate ::
  "js_object \<Rightarrow> (string \<rightharpoonup> string) \<Rightarrow> error + partial_update" where
  "sqlForPartialUpdate dataToUpdate jsToSql =
     (let keys = map fst dataToUpdate in
      if length keys = 0 then Inl (BadRequestError ''No data'')
      else
        let cols = map (\<lambda>(colName, idx). assignment jsToSql colName idx)
                       (zip keys [0 ..< length keys])
        in Inr \<lparr>setCols = join '', '' cols, values' = map snd dataToUpdate\<rparr>)"

section \<open>The store: reading statement text\<close>

text \<open>
  Modelled from the spec: the store behind \<open>db.query\<close> (PostgreSQL through
  node-postgres, an external collaborator in section 6). The model answers the statements
  the managers issue. Statement text that the managers assemble at run time (the
  \<open>SET\<close> list and the \<open>WHERE\<close> expression) is read character by character, as the
  store does; text outside the small grammar covered here is answered with a store error
  whose message says so.
\<close>

definition is_digit :: "char \<Rightarrow> bool" where
  "is_digit c = (c \<in> set ''0123456789'')"

definition digit_val :: "char \<Rightarrow> nat" where
  "digit_val c = length (takeWhile (\<lambda>d. d \<noteq> c) ''0123456789'')"

definition read_nat :: "string \<Rightarrow> nat" where
  "read_nat ds = foldl (\<lambda>a c. 10 * a + digit_val c) 0 ds"

text \<open>A positional parameter \<open>$n\<close>.\<close>

definition parse_param :: "string \<Rightarrow> nat option" where
  "parse_param s =
     (case s of
        [] \<Rightarrow> None
      | c # ds \<Rightarrow> if c = CHR ''$'' \<and> ds \<noteq> [] \<and> list_all is_digit ds
                 then Some (read_nat ds) else None)"

text \<open>
  One assignment of a \<open>SET\<close> list in the shape the helper writes: a quoted identifier
  (it ends at the next double quote), \<open>=\<close>, a parameter. The rest of the text is
  returned.
\<close>

definition parse_assignment :: "string \<Rightarrow> ((string \<times> nat) \<times> string) option" where
  "parse_assignment s =
     (case s of
        [] \<Rightarrow> None
      | c # r \<Rightarrow>
          if c \<noteq> dquote then None
          else
            (case dropWhile (\<lambda>x. x \<noteq> dquote) r of
               q # e # d # r2 \<Rightarrow>
                 if e = CHR ''='' \<and> d = CHR ''$'' \<and> takeWhile is_digit r2 \<noteq> []
                 then Some ((takeWhile (\<lambda>x. x \<noteq> dquote) r, read_nat (takeWhile is_digit r2)),
                            dropWhile is_digit r2)
                 else None
             | _ \<Rightarrow> None))"

function parse_assignments :: "string \<Rightarrow> (string \<times> nat) list option" where
  "parse_assignments s =
     (case parse_assignment s of
        None \<Rightarrow> None
      | Some (a, rest) \<Rightarrow>
          (case rest of
             [] \<Rightarrow> Some [a]
           | c1 # r1 \<Rightarrow>
               (case r1 of
                  [] \<Rightarrow> None
                | c2 # r2 \<Rightarrow>
                    if c1 = CHR '','' \<and> c2 = CHR '' ''
                    then map_option (Cons a) (parse_assignments r2)
                    else None)))"
  by pat_completeness auto
termination
proof (relation "measure length", goal_cases)
  case 1
  show ?case by simp
next
  case (2 s x2 a rest c1 r1 c2 r2)
  from 2(1,2) obtain c r q e d r' where
    s: "s = c # r" and dw: "dropWhile (\<lambda>x. x \<noteq> dquote) r = q # e # d # r'"
    and rest: "rest = dropWhile is_digit r'"
    by (auto simp: parse_assignment_def split: list.splits if_splits)
  have "length rest \<le> length r'"
    unfolding rest by (rule length_dropWhile_le)
  moreover have "length (q # e # d # r') \<le> length r"
    unfolding dw[symmetric] by (rule length_dropWhile_le)
  ultimately show ?case
    using 2(3,4) s by simp
qed

text \<open>
  \<open>ILIKE\<close>: \<open>LIKE\<close> on the lower-cased pattern and text (ASCII letters). In the pattern
  \<open>%\<close> stands for any run of characters, \<open>_\<close> for any one character, and a backslash
  makes the next character literal. (A pattern that ends in a lone backslash is an error
  in PostgreSQL; the managers always close the pattern with \<open>%\<close>.)
\<close>

definition to_lower :: "char \<Rightarrow> char" where
  "to_lower c =
     (case map_of (zip ''ABCDEFGHIJKLMNOPQRSTUVWXYZ'' ''abcdefghijklmnopqrstuvwxyz'') c of
        None \<Rightarrow> c
      | Some l \<Rightarrow> l)"

fun like :: "string \<Rightarrow> string \<Rightarrow> bool" where
  "like [] s = (s = [])"
| "like (p # ps) [] = (p = CHR ''%'' \<and> like ps [])"
| "like (p # ps) (c # cs) =
     (if p = CHR ''%'' then like ps (c # cs) \<or> like (p # ps) cs
      else if p = CHR ''_'' then like ps cs
      else if p = CHR 0x5C then (case ps of [] \<Rightarrow> False | q # qs \<Rightarrow> q = c \<and> like qs cs)
      else p = c \<and> like ps cs)"

definition ilike :: "string \<Rightarrow> string \<Rightarrow> bool" where
  "ilike pat s = like (map to_lower pat) (map to_lower s)"

text \<open>
  The \<open>WHERE\<close> expression. Tokens: words (folded to lower case, as unquoted SQL
  identifiers and key words are), string constants in apostrophes (a doubled apostrophe
  inside stands for one), unsigned integers, and the operators \<open>= < > <= >= -\<close>.
\<close>

datatype token = T_word string | T_str string | T_num nat | T_sym string

datatype lex_state =
    Idle | In_word string | In_num string | In_str string | In_str_quote string | In_op char

definition is_word_start :: "char \<Rightarrow> bool" where
  "is_word_start c =
     (c \<in> set ''abcdefghijklmnopqrstuvwxyzABCDEFGHIJKLMNOPQRSTUVWXYZ_'')"

definition is_word_char :: "char \<Rightarrow> bool" where
  "is_word_char c = (is_word_start c \<or> is_digit c)"

definition idle_step :: "char \<Rightarrow> (token list \<times> lex_state) option" where
  "idle_step c =
     (if c = CHR '' '' then Some ([], Idle)
      else if is_word_start c then Some ([], In_word [to_lower c])
      else if is_digit c then Some ([], In_num [c])
      else if c = apos then Some ([], In_str [])
      else if c = CHR ''<'' \<or> c = CHR ''>'' then Some ([], In_op c)
      else if c = CHR ''='' \<or> c = CHR ''-'' then Some ([T_sym [c]], Idle)
      else None)"

definition emit :: "token \<Rightarrow> (token list \<times> lex_state) option \<Rightarrow> (token list \<times> lex_state) option" where
  "emit t r = map_option (\<lambda>(ts, s). (t # ts, s)) r"

fun step :: "lex_state \<Rightarrow> char \<Rightarrow> (token list \<times> lex_state) option" where
  "step Idle c = idle_step c"
| "step (In_word w) c =
     (if is_word_char c then Some ([], In_word (w @ [to_lower c]))
      else if c = apos then None
      else emit (T_word w) (idle_step c))"
| "step (In_num ds) c =
     (if is_digit c then Some ([], In_num (ds @ [c]))
      else if is_word_start c \<or> c = CHR ''.'' then None
      else emit (T_num (read_nat ds)) (idle_step c))"
| "step (In_str s) c =
     (if c = apos then Some ([], In_str_quote s) else Some ([], In_str (s @ [c])))"
| "step (In_str_quote s) c =
     (if c = apos then Some ([], In_str (s @ [apos]))
      else emit (T_str s) (idle_step c))"
| "step (In_op x) c =
     (if c = CHR ''='' then Some ([T_sym [x, c]], Idle)
      else emit (T_sym [x]) (idle_step c))"

fun finish :: "lex_state \<Rightarrow> token list option" where
  "finish Idle = Some []"
| "finish (In_word w) = Some [T_word w]"
| "finish (In_num ds) = Some [T_num (read_nat ds)]"
| "finish (In_str s) = None"
| "finish (In_str_quote s) = Some [T_str s]"
| "finish (In_op x) = Some [T_sym [x]]"

fun lex_sql :: "lex_state \<Rightarrow> string \<Rightarrow> token list option" where
  "lex_sql s [] = finish s"
| "lex_sql s (c # cs) =
     (case step s c of
        None \<Rightarrow> None
      | Some (ts, s') \<Rightarrow> map_option (\<lambda>r. ts @ r) (lex_sql s' cs))"

text \<open>
  The expression is a disjunction of conjunctions of comparisons (\<open>AND\<close> binds tighter
  than \<open>OR\<close>): a column \<open>ILIKE\<close> a string constant, or a column compared with an
  integer constant.
\<close>

datatype atom = Ilike string string | Cmp string string int

fun split_on :: "('a \<Rightarrow> bool) \<Rightarrow> 'a list \<Rightarrow> 'a list list" where
  "split_on P [] = [[]]"
| "split_on P (x # xs) =
     (if P x then [] # split_on P xs
      else (case split_on P xs of [] \<Rightarrow> [[x]] | ys # yss \<Rightarrow> (x # ys) # yss))"

definition parse_atom :: "token list \<Rightarrow> atom option" where
  "parse_atom ts =
     (case ts of
        [T_word col, T_word k, T_str pat] \<Rightarrow>
          if k = ''ilike'' then Some (Ilike col pat) else None
      | [T_word col, T_sym ope, T_num n] \<Rightarrow> Some (Cmp col ope (int n))
      | [T_word col, T_sym ope, T_sym m, T_num n] \<Rightarrow>
          if m = ''-'' then Some (Cmp col ope (- int n)) else None
      | _ \<Rightarrow> None)"

definition parse_where :: "token list \<Rightarrow> atom list list option" where
  "parse_where ts =
     those (map (\<lambda>cj. those (map parse_atom (split_on (\<lambda>t. t = T_word ''and'') cj)))
                (split_on (\<lambda>t. t = T_word ''or'') ts))"

definition cmp_op :: "string \<Rightarrow> (rat \<Rightarrow> rat \<Rightarrow> bool) option" where
  "cmp_op ope =
     (if ope = ''>='' then Some (\<lambda>a b. a \<ge> b)
      else if ope = ''<='' then Some (\<lambda>a b. a \<le> b)
      else if ope = ''>'' then Some (\<lambda>a b. a > b)
      else if ope = ''<'' then Some (\<lambda>a b. a < b)
      else if ope = ''='' then Some (\<lambda>a b. a = b)
      else None)"

text \<open>
  A table gives its text columns and its numeric columns by name. A comparison with a
  \<open>NULL\<close> column is not true, so the row is not selected.
\<close>

definition atom_pred ::
  "(string \<Rightarrow> ('r \<Rightarrow> string option) option) \<Rightarrow> (string \<Rightarrow> ('r \<Rightarrow> rat option) option) \<Rightarrow>
   atom \<Rightarrow> ('r \<Rightarrow> bool) option" where
  "atom_pred text_col num_col a =
     (case a of
        Ilike col pat \<Rightarrow>
          (case text_col col of
             None \<Rightarrow> None
           | Some get \<Rightarrow> Some (\<lambda>r. case get r of None \<Rightarrow> False | Some s \<Rightarrow> ilike pat s))
      | Cmp col ope n \<Rightarrow>
          (case num_col col of
             None \<Rightarrow> None
           | Some get \<Rightarrow>
               (case cmp_op ope of
                  None \<Rightarrow> None
                | Some f \<Rightarrow>
                    Some (\<lambda>r. case get r of None \<Rightarrow> False | Some q \<Rightarrow> f q (of_int n)))))"

definition syntax_error_at_ORDER :: error where
  "syntax_error_at_ORDER = StoreError (''syntax error at or near '' @ [dquote] @ ''ORDER'' @ [dquote])"

definition not_covered :: error where
  "not_covered = StoreError ''statement text outside the grammar of the model''"

definition rejected :: error where
  "rejected = StoreError ''statement or parameters rejected by the store''"

definition where_pred ::
  "(string \<Rightarrow> ('r \<Rightarrow> string option) option) \<Rightarrow> (string \<Rightarrow> ('r \<Rightarrow> rat option) option) \<Rightarrow>
   string \<Rightarrow> error + ('r \<Rightarrow> bool)" where
  "where_pred text_col num_col w =
     (case lex_sql Idle w of
        None \<Rightarrow> Inl not_covered
      | Some ts \<Rightarrow>
          if ts = [] then Inl syntax_error_at_ORDER
          else
            (case parse_where ts of
               None \<Rightarrow> Inl not_covered
             | Some dnf \<Rightarrow>
                 (case those (map (\<lambda>cj. those (map (atom_pred text_col num_col) cj)) dnf) of
                    None \<Rightarrow> Inl rejected
                  | Some preds \<Rightarrow>
                      Inr (\<lambda>r. list_ex (\<lambda>cj. list_all (\<lambda>p. p r) cj) preds))))"

section \<open>The store: tables and statements\<close>

text \<open>
  Modelled from the spec: the schema, which is not among the source files. Sections 3 and
  6 give \<open>companies(handle PK, name, description, num_employees, logo_url)\<close> and
  \<open>jobs(id PK, title, salary, equity, company_handle FK -> companies.handle)\<close>, with
  \<open>num_employees\<close>, \<open>logo_url\<close>, \<open>salary\<close> and \<open>equity\<close> nullable. The store
  enforces the two primary keys and the foreign key and nothing else. What the foreign
  key does to the jobs of a company that is deleted, or whose handle is changed, is not
  stated anywhere; the two flags of the store leave it open (cascade, or refuse).
\<close>

record company_row =
  c_handle :: string
  c_name :: string
  c_description :: string
  c_num_employees :: "int option"
  c_logo_url :: "string option"

record job_row =
  j_id :: int
  j_title :: string
  j_salary :: "int option"
  j_equity :: "rat option"
  j_company_handle :: string

record db =
  companies :: "company_row list"
  jobs :: "job_row list"
  on_delete_cascade :: bool
  on_update_cascade :: bool

text \<open>A result row is a JavaScript object: the column labels with their values.\<close>

type_synonym row = "(string \<times> val) list"

definition int_val :: "int option \<Rightarrow> val" where
  "int_val x = (case x of None \<Rightarrow> Null | Some n \<Rightarrow> IntV n)"

definition text_val :: "string option \<Rightarrow> val" where
  "text_val x = (case x of None \<Rightarrow> Null | Some s \<Rightarrow> TextV s)"

definition num_val :: "rat option \<Rightarrow> val" where
  "num_val x = (case x of None \<Rightarrow> Null | Some q \<Rightarrow> NumV q)"

text \<open>
  \<open>handle, name, description, num_employees AS "numEmployees", logo_url AS "logoUrl"\<close>
  and \<open>id, title, salary, equity, company_handle AS "companyHandle"\<close>.
\<close>

definition company_cols :: "company_row \<Rightarrow> row" where
  "company_cols c =
     [(''handle'', TextV (c_handle c)), (''name'', TextV (c_name c)),
      (''description'', TextV (c_description c)),
      (''numEmployees'', int_val (c_num_employees c)),
      (''logoUrl'', text_val (c_logo_url c))]"

definition job_cols :: "job_row \<Rightarrow> row" where
  "job_cols j =
     [(''id'', IntV (j_id j)), (''title'', TextV (j_title j)),
      (''salary'', int_val (j_salary j)), (''equity'', num_val (j_equity j)),
      (''companyHandle'', TextV (j_company_handle j))]"

definition null_job_cols :: row where
  "null_job_cols =
     [(''id'', Null), (''title'', Null), (''salary'', Null), (''equity'', Null),
      (''companyHandle'', Null)]"

definition company_text_col :: "string \<Rightarrow> (company_row \<Rightarrow> string option) option" where
  "company_text_col col =
     (if col = ''handle'' then Some (\<lambda>c. Some (c_handle c))
      else if col = ''name'' then Some (\<lambda>c. Some (c_name c))
      else if col = ''description'' then Some (\<lambda>c. Some (c_description c))
      else if col = ''logo_url'' then Some c_logo_url
      else None)"

definition company_num_col :: "string \<Rightarrow> (company_row \<Rightarrow> rat option) option" where
  "company_num_col col =
     (if col = ''num_employees'' then Some (\<lambda>c. map_option of_int (c_num_employees c))
      else None)"

definition job_text_col :: "string \<Rightarrow> (job_row \<Rightarrow> string option) option" where
  "job_text_col col =
     (if col = ''title'' then Some (\<lambda>j. Some (j_title j))
      else if col = ''company_handle'' then Some (\<lambda>j. Some (j_company_handle j))
      else None)"

definition job_num_col :: "string \<Rightarrow> (job_row \<Rightarrow> rat option) option" where
  "job_num_col col =
     (if col = ''id'' then Some (\<lambda>j. Some (of_int (j_id j)))
      else if col = ''salary'' then Some (\<lambda>j. map_option of_int (j_salary j))
      else if col = ''equity'' then Some j_equity
      else None)"

text \<open>
  Assignments. A parameter is accepted by a column when it is \<open>null\<close> or of the
  column's type (checked when the statement is bound, whether or not a row matches); a
  parameter of another JavaScript type, which PostgreSQL would try to convert from its
  text, is not covered by the model and is refused. Writing \<open>null\<close> into a column
  that is not nullable fails when a row is written.
\<close>

definition is_text :: "val \<Rightarrow> bool" where
  "is_text v = (case v of TextV s \<Rightarrow> True | Null \<Rightarrow> True | _ \<Rightarrow> False)"

definition is_int :: "val \<Rightarrow> bool" where
  "is_int v = (case v of IntV n \<Rightarrow> True | Null \<Rightarrow> True | _ \<Rightarrow> False)"

definition is_num :: "val \<Rightarrow> bool" where
  "is_num v = (case v of IntV n \<Rightarrow> True | NumV q \<Rightarrow> True | Null \<Rightarrow> True | _ \<Rightarrow> False)"

definition company_accepts :: "string \<times> val \<Rightarrow> bool" where
  "company_accepts a =
     (case a of (col, v) \<Rightarrow>
        if col = ''handle'' \<or> col = ''name'' \<or> col = ''description'' \<or> col = ''logo_url''
        then is_text v
        else if col = ''num_employees'' then is_int v
        else False)"

definition job_accepts :: "string \<times> val \<Rightarrow> bool" where
  "job_accepts a =
     (case a of (col, v) \<Rightarrow>
        if col = ''title'' \<or> col = ''company_handle'' then is_text v
        else if col = ''id'' \<or> col = ''salary'' then is_int v
        else if col = ''equity'' then is_num v
        else False)"

definition company_set :: "string \<times> val \<Rightarrow> company_row \<Rightarrow> company_row option" where
  "company_set a c =
     (case a of (col, v) \<Rightarrow>
        if col = ''handle'' then
          (case v of TextV s \<Rightarrow> Some (c\<lparr>c_handle := s\<rparr>) | _ \<Rightarrow> None)
        else if col = ''name'' then
          (case v of TextV s \<Rightarrow> Some (c\<lparr>c_name := s\<rparr>) | _ \<Rightarrow> None)
        else if col = ''description'' then
          (case v of TextV s \<Rightarrow> Some (c\<lparr>c_description := s\<rparr>) | _ \<Rightarrow> None)
        else if col = ''num_employees'' then
          (case v of IntV n \<Rightarrow> Some (c\<lparr>c_num_employees := Some n\<rparr>)
                   | Null \<Rightarrow> Some (c\<lparr>c_num_employees := None\<rparr>)
                   | _ \<Rightarrow> None)
        else if col = ''logo_url'' then
          (case v of TextV s \<Rightarrow> Some (c\<lparr>c_logo_url := Some s\<rparr>)
                   | Null \<Rightarrow> Some (c\<lparr>c_logo_url := None\<rparr>)
                   | _ \<Rightarrow> None)
        else None)"

definition job_set :: "string \<times> val \<Rightarrow> job_row \<Rightarrow> job_row option" where
  "job_set a j =
     (case a of (col, v) \<Rightarrow>
        if col = ''id'' then
          (case v of IntV n \<Rightarrow> Some (j\<lparr>j_id := n\<rparr>) | _ \<Rightarrow> None)
        else if col = ''title'' then
          (case v of TextV s \<Rightarrow> Some (j\<lparr>j_title := s\<rparr>) | _ \<Rightarrow> None)
        else if col = ''salary'' then
          (case v of IntV n \<Rightarrow> Some (j\<lparr>j_salary := Some n\<rparr>)
                   | Null \<Rightarrow> Some (j\<lparr>j_salary := None\<rparr>)
                   | _ \<Rightarrow> None)
        else if col = ''equity'' then
          (case v of IntV n \<Rightarrow> Some (j\<lparr>j_equity := Some (of_int n)\<rparr>)
                   | NumV q \<Rightarrow> Some (j\<lparr>j_equity := Some q\<rparr>)
                   | Null \<Rightarrow> Some (j\<lparr>j_equity := None\<rparr>)
                   | _ \<Rightarrow> None)
        else if col = ''company_handle'' then
          (case v of TextV s \<Rightarrow> Some (j\<lparr>j_company_handle := s\<rparr>) | _ \<Rightarrow> None)
        else None)"

fun assign_all :: "('a \<Rightarrow> 'r \<Rightarrow> 'r option) \<Rightarrow> 'a list \<Rightarrow> 'r \<Rightarrow> 'r option" where
  "assign_all set_col [] r = Some r"
| "assign_all set_col (a # as) r =
     (case set_col a r of None \<Rightarrow> None | Some r' \<Rightarrow> assign_all set_col as r')"

text \<open>
  \<open>UPDATE ... WHERE ... RETURNING\<close>: the rows that match are rewritten in place, the
  others kept; the result is the new table and the rewritten rows, or \<open>None\<close> when
  a row cannot be written.
\<close>

fun update_rows ::
  "('r \<Rightarrow> bool) \<Rightarrow> ('r \<Rightarrow> 'r option) \<Rightarrow> 'r list \<Rightarrow> ('r list \<times> 'r list) option" where
  "update_rows P f [] = Some ([], [])"
| "update_rows P f (r # rs) =
     (if P r
      then (case f r of
              None \<Rightarrow> None
            | Some r' \<Rightarrow> map_option (\<lambda>(tbl, upd). (r' # tbl, r' # upd)) (update_rows P f rs))
      else map_option (\<lambda>(tbl, upd). (r # tbl, upd)) (update_rows P f rs))"

text \<open>Parameter numbers start at 1.\<close>

definition in_range :: "'a list \<Rightarrow> nat \<Rightarrow> bool" where
  "in_range params i = (1 \<le> i \<and> i \<le> length params)"

text \<open>
  Modelled from the spec: the id of a new job. Section 3 makes \<open>id\<close> an auto-assigned
  primary key, so the store gives a new job an id that no stored job has; here, the
  successor of the largest stored id.
\<close>

definition next_id :: "job_row list \<Rightarrow> int" where
  "next_id js = foldr (\<lambda>j m. max (j_id j) m) js 0 + 1"

text \<open>
  The statements of the two managers. Where the manager interpolates text into the
  statement, the constructor carries that text.
\<close>

datatype statement =
    Select_company_handle
  | Insert_company
  | Select_companies
  | Select_companies_where string
  | Select_company_with_jobs
  | Update_companies string string
  | Delete_company
  | Insert_job
  | Select_jobs
  | Select_jobs_where string
  | Select_job
  | Update_jobs string string
  | Delete_job

definition has_handle :: "string \<Rightarrow> company_row \<Rightarrow> bool" where
  "has_handle h c = (c_handle c = h)"

definition has_id :: "int \<Rightarrow> job_row \<Rightarrow> bool" where
  "has_id i j = (j_id j = i)"

definition of_company :: "string \<Rightarrow> job_row \<Rightarrow> bool" where
  "of_company h j = (j_company_handle j = h)"

definition join_jobs :: "job_row list \<Rightarrow> company_row \<Rightarrow> row list" where
  "join_jobs js c =
     (if filter (of_company (c_handle c)) js = [] then [company_cols c @ null_job_cols]
      else map (\<lambda>j. company_cols c @ job_cols j) (filter (of_company (c_handle c)) js))"

definition rename_company :: "string \<Rightarrow> string \<Rightarrow> job_row \<Rightarrow> job_row" where
  "rename_company h h' j = (if of_company h j then j\<lparr>j_company_handle := h'\<rparr> else j)"

definition new_handle :: "string \<Rightarrow> company_row list \<Rightarrow> string" where
  "new_handle h upd = (case upd of [] \<Rightarrow> h | c # rest \<Rightarrow> c_handle c)"

definition update_companies ::
  "(string \<times> val) list \<Rightarrow> string \<Rightarrow> db \<Rightarrow> (error + row list) \<times> db" where
  "update_companies asg h d =
     (if \<not> distinct (map fst asg) \<or> \<not> list_all company_accepts asg then (Inl rejected, d)
      else
        (case update_rows (has_handle h) (assign_all company_set asg) (companies d) of
           None \<Rightarrow> (Inl rejected, d)
         | Some (cs, upd) \<Rightarrow>
             if ''handle'' \<in> set (map fst asg) \<and> \<not> distinct (map c_handle cs)
             then (Inl rejected, d)
             else if list_ex (\<lambda>c. \<not> has_handle h c) upd \<and> list_ex (of_company h) (jobs d)
             then
               (if on_update_cascade d
                then (Inr (map company_cols upd),
                      d\<lparr>companies := cs,
                        jobs := map (rename_company h (new_handle h upd)) (jobs d)\<rparr>)
                else (Inl rejected, d))
             else (Inr (map company_cols upd), d\<lparr>companies := cs\<rparr>)))"

definition update_jobs ::
  "(string \<times> val) list \<Rightarrow> int \<Rightarrow> db \<Rightarrow> (error + row list) \<times> db" where
  "update_jobs asg i d =
     (if \<not> distinct (map fst asg) \<or> \<not> list_all job_accepts asg then (Inl rejected, d)
      else
        (case update_rows (has_id i) (assign_all job_set asg) (jobs d) of
           None \<Rightarrow> (Inl rejected, d)
         | Some (js, upd) \<Rightarrow>
             if ''id'' \<in> set (map fst asg) \<and> \<not> distinct (map j_id js)
             then (Inl rejected, d)
             else if ''company_handle'' \<in> set (map fst asg) \<and>
                     list_ex (\<lambda>j. \<not> list_ex (has_handle (j_company_handle j)) (companies d)) upd
             then (Inl rejected, d)
             else (Inr (map job_cols upd), d\<lparr>jobs := js\<rparr>)))"

definition select_where ::
  "(error + ('r \<Rightarrow> bool)) \<Rightarrow> ('r list \<Rightarrow> 'r list) \<Rightarrow> ('r \<Rightarrow> row) \<Rightarrow> 'r list \<Rightarrow> error + row list" where
  "select_where p order_by cols rs =
     (case p of Inl e \<Rightarrow> Inl e | Inr keep \<Rightarrow> Inr (map cols (order_by (filter keep rs))))"

definition bound_update ::
  "string \<Rightarrow> string \<Rightarrow> val list \<Rightarrow> error + ((string \<times> val) list \<times> val)" where
  "bound_update set_text key_text params =
     (case parse_assignments set_text of
        None \<Rightarrow> Inl not_covered
      | Some asg \<Rightarrow>
          (case parse_param key_text of
             None \<Rightarrow> Inl not_covered
           | Some k \<Rightarrow>
               if list_all (in_range params) (k # map snd asg)
               then Inr (map (\<lambda>(col, i). (col, params ! (i - 1))) asg, params ! (k - 1))
               else Inl rejected))"

definition insert_company :: "company_row \<Rightarrow> db \<Rightarrow> (error + row list) \<times> db" where
  "insert_company c d =
     (if list_ex (has_handle (c_handle c)) (companies d) then (Inl rejected, d)
      else (Inr [company_cols c], d\<lparr>companies := companies d @ [c]\<rparr>))"

definition insert_job ::
  "string \<Rightarrow> int option \<Rightarrow> rat option \<Rightarrow> string \<Rightarrow> db \<Rightarrow> (error + row list) \<times> db" where
  "insert_job t s e h d =
     (if \<not> list_ex (has_handle h) (companies d) then (Inl rejected, d)
      else
        (Inr [job_cols \<lparr>j_id = next_id (jobs d), j_title = t, j_salary = s, j_equity = e,
                         j_company_handle = h\<rparr>],
         d\<lparr>jobs := jobs d @ [\<lparr>j_id = next_id (jobs d), j_title = t, j_salary = s,
                                j_equity = e, j_company_handle = h\<rparr>]\<rparr>))"

definition delete_company :: "string \<Rightarrow> db \<Rightarrow> (error + row list) \<times> db" where
  "delete_company h d =
     (if filter (has_handle h) (companies d) = [] then (Inr [], d)
      else if list_ex (of_company h) (jobs d) \<and> \<not> on_delete_cascade d then (Inl rejected, d)
      else
        (Inr (map (\<lambda>c. [(''handle'', TextV (c_handle c))]) (filter (has_handle h) (companies d))),
         d\<lparr>companies := filter (\<lambda>c. \<not> has_handle h c) (companies d),
           jobs := filter (\<lambda>j. \<not> of_company h j) (jobs d)\<rparr>))"

definition delete_job :: "int \<Rightarrow> db \<Rightarrow> (error + row list) \<times> db" where
  "delete_job i d =
     (Inr (map (\<lambda>j. [(''id'', IntV (j_id j))]) (filter (has_id i) (jobs d))),
      d\<lparr>jobs := filter (\<lambda>j. \<not> has_id i j) (jobs d)\<rparr>)"

definition the_int :: "val \<Rightarrow> int option" where
  "the_int v = (case v of IntV n \<Rightarrow> Some n | _ \<Rightarrow> None)"

definition the_text :: "val \<Rightarrow> string option" where
  "the_text v = (case v of TextV s \<Rightarrow> Some s | _ \<Rightarrow> None)"

definition the_num :: "val \<Rightarrow> rat option" where
  "the_num v = (case v of IntV n \<Rightarrow> Some (of_int n) | NumV q \<Rightarrow> Some q | _ \<Rightarrow> None)"

text \<open>
  Modelled from the spec: \<open>db.query(statement, params)\<close>, section 6's query interface
  that returns an ordered list of rows or raises a store-level error. The result is the
  rows, or the error thrown, and the store after the statement. \<open>ORDER BY\<close> is a
  stable sort (PostgreSQL leaves the order of rows with equal keys open), with strings
  compared character by character. A join lists the jobs in table order.
\<close>

definition query :: "statement \<Rightarrow> val list \<Rightarrow> db \<Rightarrow> (error + row list) \<times> db" where
  "query st params d =
     (case st of
        Select_company_handle \<Rightarrow>
          (case params of
             [TextV h] \<Rightarrow>
               (Inr (map (\<lambda>c. [(''handle'', TextV (c_handle c))])
                         (filter (has_handle h) (companies d))), d)
           | _ \<Rightarrow> (Inl rejected, d))
      | Insert_company \<Rightarrow>
          (case params of
             [TextV h, TextV n, TextV ds, ne, lu] \<Rightarrow>
               if is_int ne \<and> is_text lu
               then insert_company \<lparr>c_handle = h, c_name = n, c_description = ds,
                                     c_num_employees = the_int ne, c_logo_url = the_text lu\<rparr> d
               else (Inl rejected, d)
           | _ \<Rightarrow> (Inl rejected, d))
      | Select_companies \<Rightarrow>
          (case params of
             [] \<Rightarrow> (Inr (map company_cols (sort_key c_name (companies d))), d)
           | _ \<Rightarrow> (Inl rejected, d))
      | Select_companies_where w \<Rightarrow>
          (case params of
             [] \<Rightarrow> (select_where (where_pred company_text_col company_num_col w)
                      (sort_key c_name) company_cols (companies d), d)
           | _ \<Rightarrow> (Inl rejected, d))
      | Select_company_with_jobs \<Rightarrow>
          (case params of
             [TextV h] \<Rightarrow>
               (Inr (concat (map (join_jobs (jobs d)) (filter (has_handle h) (companies d)))), d)
           | _ \<Rightarrow> (Inl rejected, d))
      | Update_companies set_text key_text \<Rightarrow>
          (case bound_update set_text key_text params of
             Inl e \<Rightarrow> (Inl e, d)
           | Inr (asg, key) \<Rightarrow>
               (case key of TextV h \<Rightarrow> update_companies asg h d | _ \<Rightarrow> (Inl rejected, d)))
      | Delete_company \<Rightarrow>
          (case params of
             [TextV h] \<Rightarrow> delete_company h d
           | _ \<Rightarrow> (Inl rejected, d))
      | Insert_job \<Rightarrow>
          (case params of
             [TextV t, s, e, TextV h] \<Rightarrow>
               if is_int s \<and> is_num e then insert_job t (the_int s) (the_num e) h d
               else (Inl rejected, d)
           | _ \<Rightarrow> (Inl rejected, d))
      | Select_jobs \<Rightarrow>
          (case params of
             [] \<Rightarrow> (Inr (map job_cols (sort_key j_id (jobs d))), d)
           | _ \<Rightarrow> (Inl rejected, d))
      | Select_jobs_where w \<Rightarrow>
          (case params of
             [] \<Rightarrow> (select_where (where_pred job_text_col job_num_col w)
                      (sort_key j_id) job_cols (jobs d), d)
           | _ \<Rightarrow> (Inl rejected, d))
      | Select_job \<Rightarrow>
          (case params of
             [IntV i] \<Rightarrow> (Inr (map job_cols (filter (has_id i) (jobs d))), d)
           | _ \<Rightarrow> (Inl rejected, d))
      | Update_jobs set_text key_text \<Rightarrow>
          (case bound_update set_text key_text params of
             Inl e \<Rightarrow> (Inl e, d)
           | Inr (asg, key) \<Rightarrow>
               (case key of IntV i \<Rightarrow> update_jobs asg i d | _ \<Rightarrow> (Inl rejected, d)))
      | Delete_job \<Rightarrow>
          (case params of
             [IntV i] \<Rightarrow> delete_job i d
           | _ \<Rightarrow> (Inl rejected, d)))"

section \<open>models/company.js\<close>

text \<open>
  Every operation takes the store and returns it with its result: \<open>Inl\<close> the error
  thrown, \<open>Inr\<close> the value returned. \<open>rows[0]\<close> is \<open>None\<close> for \<open>undefined\<close>.
  Arguments have the types of section 3 of the spec.
\<close>

definition first_row :: "row list \<Rightarrow> row option" where
  "first_row rows = (case rows of [] \<Rightarrow> None | r # rest \<Rightarrow> Some r)"

text \<open>The property \<open>k\<close> of a row; every row read below carries the labels asked for.\<close>

definition field :: "string \<Rightarrow> row \<Rightarrow> val" where
  "field k r = (case map_of r k of None \<Rightarrow> Null | Some v \<Rightarrow> v)"

definition Company_create ::
  "db \<Rightarrow> string \<Rightarrow> string \<Rightarrow> string \<Rightarrow> int option \<Rightarrow> string option \<Rightarrow> (error + row option) \<times> db" where
  "Company_create d handle name description numEmployees logoUrl =
     (case query Select_company_handle [TextV handle] d of
        (Inl e, d1) \<Rightarrow> (Inl e, d1)
      | (Inr duplicateCheck, d1) \<Rightarrow>
          if first_row duplicateCheck \<noteq> None
          then (Inl (BadRequestError (''Duplicate company: '' @ handle)), d1)
          else
            (case query Insert_company
                    [TextV handle, TextV name, TextV description, int_val numEmployees,
                     text_val logoUrl] d1 of
               (Inl e, d2) \<Rightarrow> (Inl e, d2)
             | (Inr result, d2) \<Rightarrow> (Inr (first_row result), d2)))"

definition Company_findAll :: "db \<Rightarrow> (error + row list) \<times> db" where
  "Company_findAll d = query Select_companies [] d"

text \<open>
  The filter mapping: a key that is absent is \<open>None\<close>. (The fields are prefixed to keep
  \<open>name\<close> and \<open>title\<close> free for the arguments of \<open>create\<close>.)
\<close>

record company_filter =
  cf_name :: "string option"
  cf_minEmployees :: "int option"
  cf_maxEmployees :: "int option"

definition push_if :: "'a option \<Rightarrow> ('a \<Rightarrow> string) \<Rightarrow> string list \<Rightarrow> string list" where
  "push_if key clause paramArr =
     (case key of None \<Rightarrow> paramArr | Some v \<Rightarrow> paramArr @ [clause v])"

definition Company_findFiltered :: "db \<Rightarrow> company_filter \<Rightarrow> (error + row list) \<times> db" where
  "Company_findFiltered d filterParams =
     (let paramArr = [];
          paramArr = push_if (cf_name filterParams)
                       (\<lambda>v. ''name ILIKE '' @ [apos] @ ''%'' @ v @ ''%'' @ [apos]) paramArr;
          paramArr = push_if (cf_minEmployees filterParams)
                       (\<lambda>v. ''num_employees >= '' @ show_int v) paramArr;
          paramArr = push_if (cf_maxEmployees filterParams)
                       (\<lambda>v. ''num_employees <= '' @ show_int v) paramArr;
          whereString = join '' AND '' paramArr
      in query (Select_companies_where whereString) [] d)"

text \<open>
  \<open>get\<close> returns the object \<open>{handle, name, description, numEmployees, logoUrl, jobs}\<close>:
  here the pair of its first five properties and the list under \<open>jobs\<close>.
\<close>

definition pick :: "string list \<Rightarrow> row \<Rightarrow> row" where
  "pick ks r = map (\<lambda>k. (k, field k r)) ks"

definition Company_get :: "db \<Rightarrow> string \<Rightarrow> (error + row \<times> row list) \<times> db" where
  "Company_get d handle =
     (case query Select_company_with_jobs [TextV handle] d of
        (Inl e, d1) \<Rightarrow> (Inl e, d1)
      | (Inr companyRes, d1) \<Rightarrow>
          (case first_row companyRes of
             None \<Rightarrow> (Inl (NotFoundError (''No company: '' @ handle)), d1)
           | Some company \<Rightarrow>
               (Inr ([(''handle'', TextV handle), (''name'', field ''name'' company),
                      (''description'', field ''description'' company),
                      (''numEmployees'', field ''numEmployees'' company),
                      (''logoUrl'', field ''logoUrl'' company)],
                     if field ''id'' company \<noteq> Null
                     then map (pick [''id'', ''title'', ''salary'', ''equity'', ''companyHandle''])
                              companyRes
                     else []),
                d1)))"

text \<open>The alias mapping that \<open>update\<close> passes to the helper.\<close>

definition company_alias :: "string \<rightharpoonup> string" where
  "company_alias = [''numEmployees'' \<mapsto> ''num_employees'', ''logoUrl'' \<mapsto> ''logo_url'']"

definition Company_update :: "db \<Rightarrow> string \<Rightarrow> js_object \<Rightarrow> (error + row) \<times> db" where
  "Company_update d handle data =
     (case sqlForPartialUpdate data company_alias of
        Inl e \<Rightarrow> (Inl e, d)
      | Inr u \<Rightarrow>
          (let handleVarIdx = ''$'' @ show_nat (length (values' u) + 1) in
           case query (Update_companies (setCols u) handleVarIdx) (values' u @ [TextV handle]) d of
             (Inl e, d1) \<Rightarrow> (Inl e, d1)
           | (Inr result, d1) \<Rightarrow>
               (case first_row result of
                  None \<Rightarrow> (Inl (NotFoundError (''No company: '' @ handle)), d1)
                | Some company \<Rightarrow> (Inr company, d1))))"

definition Company_remove :: "db \<Rightarrow> string \<Rightarrow> (error + unit) \<times> db" where
  "Company_remove d handle =
     (case query Delete_company [TextV handle] d of
        (Inl e, d1) \<Rightarrow> (Inl e, d1)
      | (Inr result, d1) \<Rightarrow>
          (case first_row result of
             None \<Rightarrow> (Inl (NotFoundError (''No company: '' @ handle)), d1)
           | Some company \<Rightarrow> (Inr (), d1)))"

section \<open>models/job.js\<close>

definition Job_create ::
  "db \<Rightarrow> string \<Rightarrow> int option \<Rightarrow> rat option \<Rightarrow> string \<Rightarrow> (error + row option) \<times> db" where
  "Job_create d title salary equity companyHandle =
     (case query Select_company_handle [TextV companyHandle] d of
        (Inl e, d1) \<Rightarrow> (Inl e, d1)
      | (Inr companyCheck, d1) \<Rightarrow>
          if length companyCheck = 0
          then (Inl (BadRequestError (''No company with '' @ companyHandle)), d1)
          else
            (case query Insert_job
                    [TextV title, int_val salary, num_val equity, TextV companyHandle] d1 of
               (Inl e, d2) \<Rightarrow> (Inl e, d2)
             | (Inr result, d2) \<Rightarrow> (Inr (first_row result), d2)))"

definition Job_findAll :: "db \<Rightarrow> (error + row list) \<times> db" where
  "Job_findAll d = query Select_jobs [] d"

record job_filter =
  jf_title :: "string option"
  jf_minSalary :: "int option"
  jf_hasEquity :: "bool option"

definition Job_findFiltered :: "db \<Rightarrow> job_filter \<Rightarrow> (error + row list) \<times> db" where
  "Job_findFiltered d filterParams =
     (let paramArr = [];
          paramArr = push_if (jf_title filterParams)
                       (\<lambda>v. ''title ILIKE '' @ [apos] @ ''%'' @ v @ ''%'' @ [apos]) paramArr;
          paramArr = push_if (jf_minSalary filterParams)
                       (\<lambda>v. ''salary >= '' @ show_int v) paramArr;
          paramArr = (case jf_hasEquity filterParams of
                        None \<Rightarrow> paramArr
                      | Some v \<Rightarrow> if v = True then paramArr @ [''equity > 0''] else paramArr);
          whereString = join '' AND '' paramArr
      in query (Select_jobs_where whereString) [] d)"

definition Job_get :: "db \<Rightarrow> int \<Rightarrow> (error + row) \<times> db" where
  "Job_get d id' =
     (case query Select_job [IntV id'] d of
        (Inl e, d1) \<Rightarrow> (Inl e, d1)
      | (Inr jobRes, d1) \<Rightarrow>
          (case first_row jobRes of
             None \<Rightarrow> (Inl (NotFoundError (''No job: '' @ show_int id')), d1)
           | Some job \<Rightarrow> (Inr job, d1)))"

definition Job_update :: "db \<Rightarrow> int \<Rightarrow> js_object \<Rightarrow> (error + row) \<times> db" where
  "Job_update d id' data =
     (case sqlForPartialUpdate data Map.empty of
        Inl e \<Rightarrow> (Inl e, d)
      | Inr u \<Rightarrow>
          (let idVarIdx = ''$'' @ show_nat (length (values' u) + 1) in
           case query (Update_jobs (setCols u) idVarIdx) (values' u @ [IntV id']) d of
             (Inl e, d1) \<Rightarrow> (Inl e, d1)
           | (Inr result, d1) \<Rightarrow>
               (case first_row result of
                  None \<Rightarrow> (Inl (NotFoundError (''No job: '' @ show_int id')), d1)
                | Some job \<Rightarrow> (Inr job, d1))))"

definition Job_remove :: "db \<Rightarrow> int \<Rightarrow> (error + unit) \<times> db" where
  "Job_remove d id' =
     (case query Delete_job [IntV id'] d of
        (Inl e, d1) \<Rightarrow> (Inl e, d1)
      | (Inr result, d1) \<Rightarrow>
          (case first_row result of
             None \<Rightarrow> (Inl (NotFoundError (''No job: '' @ show_int id')), d1)
           | Some job \<Rightarrow> (Inr (), d1)))"

section \<open>Predicates of the statements\<close>

text \<open>
  How an operation failed, for the statements about error classes.
\<close>

definition failed_with :: "(error \<Rightarrow> bool) \<Rightarrow> error + 'a \<Rightarrow> bool" where
  "failed_with P r = (case r of Inl e \<Rightarrow> P e | Inr v \<Rightarrow> False)"

definition is_DuplicateError :: "error \<Rightarrow> bool" where
  "is_DuplicateError e = (case e of DuplicateError m \<Rightarrow> True | _ \<Rightarrow> False)"

definition is_NotFoundError :: "error \<Rightarrow> bool" where
  "is_NotFoundError e = (case e of NotFoundError m \<Rightarrow> True | _ \<Rightarrow> False)"

text \<open>
  A key of \<open>partialData\<close> with a value of the field's type (section 3; \<open>null\<close>
  counts as a value of every type here, the store deciding whether the column takes it).
\<close>

definition company_field_ok :: "string \<times> val \<Rightarrow> bool" where
  "company_field_ok a =
     ((fst a = ''name'' \<or> fst a = ''description'' \<or> fst a = ''logoUrl'') \<and> is_text (snd a) \<or>
      fst a = ''numEmployees'' \<and> is_int (snd a))"

definition job_field_ok :: "string \<times> val \<Rightarrow> bool" where
  "job_field_ok a =
     (fst a = ''title'' \<and> is_text (snd a) \<or> fst a = ''salary'' \<and> is_int (snd a) \<or>
      fst a = ''equity'' \<and> is_num (snd a))"

text \<open>
  What an update of the record with identifier \<open>h\<close> (or \<open>i\<close>) by a mapping with the
  keys \<open>ks\<close> may do to a row \<open>c\<close> of the table, \<open>c'\<close> being the row in its place
  afterwards: the identifier stays, a row with another identifier stays as it is, and a
  field whose key is not among \<open>ks\<close> stays.
\<close>

definition company_frame :: "string \<Rightarrow> string list \<Rightarrow> company_row \<Rightarrow> company_row \<Rightarrow> bool" where
  "company_frame h ks c c' =
     (c_handle c' = c_handle c \<and>
      (c_handle c \<noteq> h \<longrightarrow> c' = c) \<and>
      (''name'' \<notin> set ks \<longrightarrow> c_name c' = c_name c) \<and>
      (''description'' \<notin> set ks \<longrightarrow> c_description c' = c_description c) \<and>
      (''numEmployees'' \<notin> set ks \<longrightarrow> c_num_employees c' = c_num_employees c) \<and>
      (''logoUrl'' \<notin> set ks \<longrightarrow> c_logo_url c' = c_logo_url c))"

definition job_frame :: "int \<Rightarrow> string list \<Rightarrow> job_row \<Rightarrow> job_row \<Rightarrow> bool" where
  "job_frame i ks j j' =
     (j_id j' = j_id j \<and>
      j_company_handle j' = j_company_handle j \<and>
      (j_id j \<noteq> i \<longrightarrow> j' = j) \<and>
      (''title'' \<notin> set ks \<longrightarrow> j_title j' = j_title j) \<and>
      (''salary'' \<notin> set ks \<longrightarrow> j_salary j' = j_salary j) \<and>
      (''equity'' \<notin> set ks \<longrightarrow> j_equity j' = j_equity j))"

text \<open>
  Two abbreviations for the proofs: the text of one assignment, and the end of both
  \<open>update\<close> operations (\<open>rows[0]\<close>, or \<open>NotFoundError\<close>).
\<close>

definition fragment :: "string \<times> nat \<Rightarrow> string" where
  "fragment a = [dquote] @ fst a @ [dquote] @ ''=$'' @ show_nat (snd a)"

definition finish_update :: "string \<Rightarrow> (error + row list) \<times> db \<Rightarrow> (error + row) \<times> db" where
  "finish_update msg r =
     (case r of
        (Inl e, d1) \<Rightarrow> (Inl e, d1)
      | (Inr result, d1) \<Rightarrow>
          (case first_row result of
             None \<Rightarrow> (Inl (NotFoundError msg), d1)
           | Some x \<Rightarrow> (Inr x, d1)))"

text \<open>
  The jobs that \<open>equity > 0\<close> selects: a job without equity (\<open>NULL\<close>) is not one.
\<close>

definition has_equity :: "job_row \<Rightarrow> bool" where
  "has_equity j = (case j_equity j of None \<Rightarrow> False | Some q \<Rightarrow> 0 < q)"

declare parse_assignments.simps [simp del]
declare show_nat.simps [simp del]

section \<open>The store of the examples\<close>

text \<open>
  A store like the one the test suite sets up: three companies, and three jobs of the
  first one (\<open>j1\<close> has the id 999 in the tests).
\<close>

definition test_db :: db where
  "test_db =
     \<lparr>companies =
        [\<lparr>c_handle = ''c1'', c_name = ''C1'', c_description = ''Desc1'',
          c_num_employees = Some 1, c_logo_url = Some ''http://c1.img''\<rparr>,
         \<lparr>c_handle = ''c2'', c_name = ''C2'', c_description = ''Desc2'',
          c_num_employees = Some 2, c_logo_url = Some ''http://c2.img''\<rparr>,
         \<lparr>c_handle = ''c3'', c_name = ''C3'', c_description = ''Desc3'',
          c_num_employees = Some 3, c_logo_url = Some ''http://c3.img''\<rparr>],
      jobs =
        [\<lparr>j_id = 1, j_title = ''j3'', j_salary = Some 3, j_equity = Some 0,
          j_company_handle = ''c1''\<rparr>,
         \<lparr>j_id = 2, j_title = ''j2'', j_salary = Some 5, j_equity = Some (1 / 10),
          j_company_handle = ''c1''\<rparr>,
         \<lparr>j_id = 999, j_title = ''j1'', j_salary = Some 5, j_equity = Some (1 / 10),
          j_company_handle = ''c1''\<rparr>],
      on_delete_cascade = True,
      on_update_cascade = False\<rparr>"

section \<open>Decimal numbers and the assignment list\<close>

lemma digit_cases:
  "d < 10 \<Longrightarrow> d = 0 \<or> d = 1 \<or> d = 2 \<or> d = 3 \<or> d = 4 \<or> d = 5 \<or> d = 6 \<or> d = 7 \<or> d = 8 \<or> d = (9::nat)"
  by arith

lemma is_digit_digit_char: "d < 10 \<Longrightarrow> is_digit (digit_char d)"
  by (drule digit_cases) (auto simp: is_digit_def digit_char_def)

lemma digit_val_digit_char: "d < 10 \<Longrightarrow> digit_val (digit_char d) = d"
  by (drule digit_cases) (auto simp: digit_val_def digit_char_def)

lemma show_nat_digits: "list_all is_digit (show_nat n)"
proof (induction n rule: show_nat.induct)
  case (1 n)
  show ?case
  proof (cases "n < 10")
    case True
    then show ?thesis by (subst show_nat.simps) (simp add: is_digit_digit_char)
  next
    case False
    then have "list_all is_digit (show_nat (n div 10))" by (rule 1)
    moreover have "is_digit (digit_char (n mod 10))" by (simp add: is_digit_digit_char)
    ultimately show ?thesis
      using False by (subst show_nat.simps) simp
  qed
qed

lemma show_nat_nonempty: "show_nat n \<noteq> []"
  by (subst show_nat.simps) simp

lemma read_nat_snoc: "read_nat (ds @ [c]) = 10 * read_nat ds + digit_val c"
  by (simp add: read_nat_def)

lemma read_nat_show_nat: "read_nat (show_nat n) = n"
proof (induction n rule: show_nat.induct)
  case (1 n)
  show ?case
  proof (cases "n < 10")
    case True
    then show ?thesis by (subst show_nat.simps) (simp add: read_nat_def digit_val_digit_char)
  next
    case False
    then have "read_nat (show_nat (n div 10)) = n div 10" by (rule 1)
    then have "read_nat (show_nat (n div 10) @ [digit_char (n mod 10)]) = 10 * (n div 10) + n mod 10"
      by (simp add: read_nat_snoc digit_val_digit_char)
    then show ?thesis
      using False by (subst show_nat.simps) simp
  qed
qed

lemma parse_param_show_nat: "parse_param (''$'' @ show_nat n) = Some n"
  by (simp add: parse_param_def show_nat_nonempty show_nat_digits read_nat_show_nat)

lemma takeWhile_digits:
  assumes "list_all is_digit ds" and "rest = [] \<or> \<not> is_digit (hd rest)"
  shows "takeWhile is_digit (ds @ rest) = ds" and "dropWhile is_digit (ds @ rest) = rest"
proof -
  have a: "\<And>x. x \<in> set ds \<Longrightarrow> is_digit x"
    using assms(1) by (simp add: list_all_iff)
  have r: "takeWhile is_digit rest = []" "dropWhile is_digit rest = rest"
    using assms(2) by (cases rest; auto)+
  show "takeWhile is_digit (ds @ rest) = ds"
    using a r by simp
  show "dropWhile is_digit (ds @ rest) = rest"
    using a r by simp
qed

lemma parse_assignment_fragment:
  assumes "dquote \<notin> set nm" and "rest = [] \<or> \<not> is_digit (hd rest)"
  shows "parse_assignment (fragment (nm, n) @ rest) = Some ((nm, n), rest)"
proof -
  have tw: "takeWhile (\<lambda>x. x \<noteq> dquote) (nm @ dquote # xs) = nm"
    and dw: "dropWhile (\<lambda>x. x \<noteq> dquote) (nm @ dquote # xs) = dquote # xs" for xs
    using assms(1) by (induction nm) auto
  have f: "fragment (nm, n) @ rest = dquote # (nm @ dquote # CHR ''='' # CHR ''$'' # (show_nat n @ rest))"
    by (simp add: fragment_def)
  show ?thesis
    unfolding f parse_assignment_def
    using takeWhile_digits[OF show_nat_digits assms(2), of n]
    by (simp add: tw dw show_nat_nonempty read_nat_show_nat)
qed

lemma not_is_digit_comma: "\<not> is_digit (CHR '','')"
  by (simp add: is_digit_def)

lemma parse_assignments_join:
  assumes "xs \<noteq> []" and "list_all (\<lambda>a. dquote \<notin> set (fst a)) xs"
  shows "parse_assignments (join '', '' (map fragment xs)) = Some xs"
  using assms
proof (induction xs)
  case Nil
  then show ?case by simp
next
  case (Cons a xs)
  obtain nm n where a: "a = (nm, n)" by (cases a)
  from Cons.prems(2) a have nm: "dquote \<notin> set nm" by simp
  show ?case
  proof (cases xs)
    case Nil
    have "parse_assignment (fragment (nm, n) @ []) = Some ((nm, n), [])"
      using nm by (intro parse_assignment_fragment) simp_all
    then show ?thesis
      using Nil a by (subst parse_assignments.simps) simp
  next
    case (Cons b ys)
    let ?rest = "'', '' @ join '', '' (map fragment xs)"
    have "parse_assignment (fragment (nm, n) @ ?rest) = Some ((nm, n), ?rest)"
      using nm by (intro parse_assignment_fragment) (simp_all add: not_is_digit_comma)
    moreover have "parse_assignments (join '', '' (map fragment xs)) = Some xs"
      using Cons Cons.prems Cons.IH by simp
    moreover have "join '', '' (map fragment (a # xs)) = fragment (nm, n) @ ?rest"
      using Cons a by simp
    ultimately show ?thesis
      using a by (subst parse_assignments.simps) simp
  qed
qed

section \<open>What the store reads from the partial-update helper\<close>

lemma sqlForPartialUpdate_empty:
  "sqlForPartialUpdate [] jsToSql = Inl (BadRequestError ''No data'')"
  by (simp add: sqlForPartialUpdate_def)

lemma sqlForPartialUpdate_nonempty:
  assumes "dataToUpdate \<noteq> []"
  shows "sqlForPartialUpdate dataToUpdate jsToSql =
           Inr \<lparr>setCols = join '', ''
                    (map (\<lambda>(colName, idx). assignment jsToSql colName idx)
                       (zip (map fst dataToUpdate) [0 ..< length dataToUpdate])),
                values' = map snd dataToUpdate\<rparr>"
  using assms by (simp add: sqlForPartialUpdate_def)

lemma storage_name_alias_or_name:
  "Object_prototype colName = Undefined \<Longrightarrow> storage_name jsToSql colName = alias_or_name jsToSql colName"
  by (simp add: storage_name_def alias_or_name_def get_property_def truthy_def template_text_def
      split: option.splits)

lemma cols_as_fragments:
  "map (\<lambda>(colName, idx). assignment al colName idx) (zip ks [0 ..< length ks]) =
   map fragment (zip (map (storage_name al) ks) (map Suc [0 ..< length ks]))"
  by (rule nth_equalityI) (simp_all add: assignment_def fragment_def)

lemma bind_params:
  assumes "length names = length vs"
  shows "map (\<lambda>(col, i). (col, (vs @ [key]) ! (i - 1)))
           (zip names (map Suc [0 ..< length vs])) = zip names vs"
  using assms by (intro nth_equalityI) (simp_all add: nth_append)

lemma params_in_range:
  "list_all (in_range (vs @ [key])) (Suc (length vs) # map Suc [0 ..< length vs])"
  by (simp add: list_all_iff in_range_def)

lemma bound_update_sqlForPartialUpdate:
  assumes ne: "data \<noteq> []"
    and q: "list_all (\<lambda>k. dquote \<notin> set (storage_name al k)) (map fst data)"
    and u: "sqlForPartialUpdate data al = Inr u"
  shows "bound_update (setCols u) (''$'' @ show_nat (length (values' u) + 1)) (values' u @ [key]) =
           Inr (map (\<lambda>(k, v). (storage_name al k, v)) data, key)"
proof -
  let ?names = "map (storage_name al) (map fst data)"
  let ?xs = "zip ?names (map Suc [0 ..< length data])"
  from ne u have sc: "setCols u = join '', '' (map fragment ?xs)"
    and vs: "values' u = map snd data"
    using cols_as_fragments[of al "map fst data"]
    by (auto simp: sqlForPartialUpdate_nonempty)
  have "?xs \<noteq> []" using ne by (cases data) (simp_all add: upt_rec)
  moreover have "list_all (\<lambda>a. dquote \<notin> set (fst a)) ?xs"
    using q by (auto simp: list_all_iff dest!: set_zip_leftD)
  ultimately have pa: "parse_assignments (setCols u) = Some ?xs"
    unfolding sc by (rule parse_assignments_join)
  have pp: "parse_param (''$'' @ show_nat (length (values' u) + 1)) = Some (Suc (length data))"
    using parse_param_show_nat[of "Suc (length data)"] by (simp add: vs)
  have ms: "map snd ?xs = map Suc [0 ..< length data]"
    by simp
  have rng: "list_all (in_range (map snd data @ [key])) (Suc (length data) # map Suc [0 ..< length data])"
    using params_in_range[of "map snd data" key] by simp
  have bp: "map (\<lambda>(col, i). (col, (map snd data @ [key]) ! (i - 1))) ?xs = zip ?names (map snd data)"
    using bind_params[of ?names "map snd data" key] by simp
  have z: "zip ?names (map snd data) = map (\<lambda>(k, v). (storage_name al k, v)) data"
    by (induction data) auto
  show ?thesis
    unfolding bound_update_def pa pp
    using rng bp z by (simp add: vs ms nth_append del: upt_Suc)
qed

lemma Company_update_empty:
  "Company_update d h [] = (Inl (BadRequestError ''No data''), d)"
  by (simp add: Company_update_def sqlForPartialUpdate_empty)

lemma Job_update_empty:
  "Job_update d i [] = (Inl (BadRequestError ''No data''), d)"
  by (simp add: Job_update_def sqlForPartialUpdate_empty)

lemma Company_update_bound:
  assumes "data \<noteq> []"
    and "list_all (\<lambda>k. dquote \<notin> set (storage_name company_alias k)) (map fst data)"
  shows "Company_update d h data =
           finish_update (''No company: '' @ h)
             (update_companies (map (\<lambda>(k, v). (storage_name company_alias k, v)) data) h d)"
proof -
  from assms(1) obtain u where u: "sqlForPartialUpdate data company_alias = Inr u"
    by (auto simp: sqlForPartialUpdate_nonempty)
  have b: "bound_update (setCols u) (''$'' @ show_nat (length (values' u) + 1)) (values' u @ [TextV h]) =
           Inr (map (\<lambda>(k, v). (storage_name company_alias k, v)) data, TextV h)"
    using assms u by (rule bound_update_sqlForPartialUpdate)
  show ?thesis
    unfolding Company_update_def u finish_update_def
    using b by (simp add: query_def)
qed

lemma Job_update_bound:
  assumes "data \<noteq> []"
    and "list_all (\<lambda>k. storage_name Map.empty k = k \<and> dquote \<notin> set k) (map fst data)"
  shows "Job_update d i data =
           finish_update (''No job: '' @ show_int i) (update_jobs data i d)"
proof -
  from assms(1) obtain u where u: "sqlForPartialUpdate data Map.empty = Inr u"
    by (auto simp: sqlForPartialUpdate_nonempty)
  have sn: "\<And>k. k \<in> set (map fst data) \<Longrightarrow> storage_name Map.empty k = k"
    and dq: "\<And>k. k \<in> set (map fst data) \<Longrightarrow> dquote \<notin> set k"
    using assms(2) by (auto simp: list_all_iff)
  have q: "list_all (\<lambda>k. dquote \<notin> set (storage_name Map.empty k)) (map fst data)"
    unfolding list_all_iff
  proof
    fix k assume k: "k \<in> set (map fst data)"
    show "dquote \<notin> set (storage_name Map.empty k)"
      using sn[OF k] dq[OF k] by simp
  qed
  have same: "map (\<lambda>(k, v). (storage_name Map.empty k, v)) data = data"
  proof (rule map_idI)
    fix x assume x: "x \<in> set data"
    then have "fst x \<in> set (map fst data)" by simp
    from sn[OF this] show "(case x of (k, v) \<Rightarrow> (storage_name Map.empty k, v)) = x"
      by (cases x) simp
  qed
  have b: "bound_update (setCols u) (''$'' @ show_nat (length (values' u) + 1)) (values' u @ [IntV i]) =
           Inr (map (\<lambda>(k, v). (storage_name Map.empty k, v)) data, IntV i)"
    using assms(1) q u by (rule bound_update_sqlForPartialUpdate)
  show ?thesis
    unfolding Job_update_def u finish_update_def
    using b by (simp add: query_def same)
qed

text \<open>
  What reaches the store from an update, whatever the keys are.
\<close>

lemma Company_update_cases:
  assumes "data \<noteq> []"
  shows "(\<exists>e. Company_update d h data = (Inl e, d)) \<or>
         (\<exists>asg. Company_update d h data =
                  finish_update (''No company: '' @ h) (update_companies asg h d))"
proof -
  from assms obtain u where u: "sqlForPartialUpdate data company_alias = Inr u"
    and vs: "values' u = map snd data"
    by (auto simp: sqlForPartialUpdate_nonempty)
  have pp: "parse_param (CHR ''$'' # show_nat (Suc (length data))) = Some (Suc (length data))"
    using parse_param_show_nat[of "Suc (length data)"] by simp
  show ?thesis
  proof (cases "bound_update (setCols u) (CHR ''$'' # show_nat (Suc (length data))) (map snd data @ [TextV h])")
    case (Inl e)
    then show ?thesis
      unfolding Company_update_def u by (simp add: query_def vs)
  next
    case (Inr p)
    then obtain asg where "p = (asg, TextV h)"
      by (auto simp: bound_update_def pp nth_append split: option.splits if_splits)
    with Inr show ?thesis
      unfolding Company_update_def u finish_update_def
      by (auto simp: query_def vs)
  qed
qed

lemma Job_update_cases:
  assumes "data \<noteq> []"
  shows "(\<exists>e. Job_update d i data = (Inl e, d)) \<or>
         (\<exists>asg. Job_update d i data =
                  finish_update (''No job: '' @ show_int i) (update_jobs asg i d))"
proof -
  from assms obtain u where u: "sqlForPartialUpdate data Map.empty = Inr u"
    and vs: "values' u = map snd data"
    by (auto simp: sqlForPartialUpdate_nonempty)
  have pp: "parse_param (CHR ''$'' # show_nat (Suc (length data))) = Some (Suc (length data))"
    using parse_param_show_nat[of "Suc (length data)"] by simp
  show ?thesis
  proof (cases "bound_update (setCols u) (CHR ''$'' # show_nat (Suc (length data))) (map snd data @ [IntV i])")
    case (Inl e)
    then show ?thesis
      unfolding Job_update_def u by (simp add: query_def vs)
  next
    case (Inr p)
    then obtain asg where "p = (asg, IntV i)"
      by (auto simp: bound_update_def pp nth_append split: option.splits if_splits)
    with Inr show ?thesis
      unfolding Job_update_def u finish_update_def
      by (auto simp: query_def vs)
  qed
qed

section \<open>Selecting and inserting\<close>

lemma query_Select_company_handle:
  "query Select_company_handle [TextV h] d =
     (Inr (map (\<lambda>c. [(''handle'', TextV (c_handle c))]) (filter (has_handle h) (companies d))), d)"
  by (simp add: query_def)

lemma is_int_int_val [simp]: "is_int (int_val x)" "the_int (int_val x) = x"
  by (cases x; simp add: is_int_def int_val_def the_int_def)+

lemma is_text_text_val [simp]: "is_text (text_val x)" "the_text (text_val x) = x"
  by (cases x; simp add: is_text_def text_val_def the_text_def)+

lemma is_num_num_val [simp]: "is_num (num_val x)" "the_num (num_val x) = x"
  by (cases x; simp add: is_num_def num_val_def the_num_def)+

lemma query_Insert_company:
  "query Insert_company [TextV h, TextV n, TextV ds, int_val ne, text_val lu] d =
     insert_company \<lparr>c_handle = h, c_name = n, c_description = ds,
                     c_num_employees = ne, c_logo_url = lu\<rparr> d"
  by (simp add: query_def)

lemma query_Insert_job:
  "query Insert_job [TextV t, int_val s, num_val e, TextV h] d = insert_job t s e h d"
  by (simp add: query_def)

lemma has_handle_filter_empty:
  "(filter (has_handle h) cs = []) = (h \<notin> set (map c_handle cs))"
  by (induction cs) (auto simp: has_handle_def)

lemma list_ex_has_handle:
  "list_ex (has_handle h) cs = (h \<in> set (map c_handle cs))"
  by (induction cs) (auto simp: has_handle_def)

lemma has_id_filter_empty:
  "(filter (has_id i) js = []) = (i \<notin> set (map j_id js))"
  by (induction js) (auto simp: has_id_def)

lemma next_id_above: "j \<in> set js \<Longrightarrow> j_id j < next_id js"
  by (induction js) (auto simp: next_id_def)

lemma next_id_fresh: "next_id js \<notin> set (map j_id js)"
  using next_id_above by fastforce

lemma field_company_cols:
  "field ''name'' (company_cols c @ r) = TextV (c_name c)"
  "field ''description'' (company_cols c @ r) = TextV (c_description c)"
  "field ''numEmployees'' (company_cols c @ r) = int_val (c_num_employees c)"
  "field ''logoUrl'' (company_cols c @ r) = text_val (c_logo_url c)"
  by (simp_all add: field_def company_cols_def)

lemma field_id_join:
  "field ''id'' (company_cols c @ job_cols j) = IntV (j_id j)"
  "field ''id'' (company_cols c @ null_job_cols) = Null"
  by (simp_all add: field_def company_cols_def job_cols_def null_job_cols_def)

lemma pick_job_cols:
  "pick [''id'', ''title'', ''salary'', ''equity'', ''companyHandle''] (company_cols c @ job_cols j) =
     job_cols j"
  by (simp add: pick_def field_def company_cols_def job_cols_def)

lemma filter_unique:
  assumes "distinct (map f xs)" and "x \<in> set xs"
  shows "filter (\<lambda>y. f y = f x) xs = [x]"
  using assms
proof (induction xs)
  case Nil
  then show ?case by simp
next
  case (Cons a xs)
  show ?case
  proof (cases "a = x")
    case True
    with Cons.prems(1) have "\<forall>y \<in> set xs. f y \<noteq> f x" by (auto simp: image_iff)
    then have "filter (\<lambda>y. f y = f x) xs = []" by (simp add: filter_empty_conv)
    with True show ?thesis by simp
  next
    case False
    with Cons.prems have "x \<in> set xs" "distinct (map f xs)" "f a \<noteq> f x"
      by (auto simp: image_iff)
    with Cons.IH show ?thesis by simp
  qed
qed

lemma filter_Cons_mem: "filter P xs = x # rest \<Longrightarrow> P x \<and> x \<in> set xs"
  by (induction xs) (auto split: if_splits)

lemma query_Select_company_with_jobs:
  "query Select_company_with_jobs [TextV h] d =
     (Inr (concat (map (join_jobs (jobs d)) (filter (has_handle h) (companies d)))), d)"
  by (simp add: query_def)

lemma Company_get_absent:
  assumes "h \<notin> set (map c_handle (companies d))"
  shows "Company_get d h = (Inl (NotFoundError (''No company: '' @ h)), d)"
proof -
  have "filter (has_handle h) (companies d) = []"
    using assms by (simp add: has_handle_filter_empty)
  then show ?thesis
    by (simp add: Company_get_def query_Select_company_with_jobs first_row_def)
qed

lemma Company_get_present:
  assumes dist: "distinct (map c_handle (companies d))"
    and c: "c \<in> set (companies d)" and h: "c_handle c = h"
  shows "Company_get d h =
           (Inr (company_cols c, map job_cols (filter (of_company h) (jobs d))), d)"
proof -
  have "filter (\<lambda>y. c_handle y = c_handle c) (companies d) = [c]"
    using dist c by (rule filter_unique)
  then have f: "filter (has_handle h) (companies d) = [c]"
    using h by (simp add: has_handle_def[abs_def])
  have cc: "company_cols c = [(''handle'', TextV h), (''name'', TextV (c_name c)),
      (''description'', TextV (c_description c)), (''numEmployees'', int_val (c_num_employees c)),
      (''logoUrl'', text_val (c_logo_url c))]"
    using h by (simp add: company_cols_def)
  show ?thesis
  proof (cases "filter (of_company h) (jobs d)")
    case Nil
    then show ?thesis
      using h
      by (simp add: Company_get_def query_Select_company_with_jobs f join_jobs_def first_row_def
            field_company_cols field_id_join)
         (simp add: company_cols_def)
  next
    case (Cons j js)
    then show ?thesis
      using h
      by (simp add: Company_get_def query_Select_company_with_jobs f join_jobs_def first_row_def
            field_company_cols field_id_join pick_job_cols comp_def)
         (simp add: company_cols_def)
  qed
qed

lemma join_jobs_first: "\<exists>x rest. join_jobs js c = (company_cols c @ x) # rest"
  by (cases "filter (of_company (c_handle c)) js") (simp_all add: join_jobs_def)

lemma Company_get_first:
  assumes "filter (has_handle (c_handle c)) (companies d) = c # rest"
  shows "\<exists>js. Company_get d (c_handle c) = (Inr (company_cols c, js), d)"
proof -
  obtain x rest' where j: "join_jobs (jobs d) c = (company_cols c @ x) # rest'"
    using join_jobs_first by blast
  show ?thesis
    by (simp add: Company_get_def query_Select_company_with_jobs assms j first_row_def
          field_company_cols)
       (simp add: company_cols_def)
qed

lemma Job_get_first:
  assumes "filter (has_id (j_id j)) (jobs d) = j # rest"
  shows "Job_get d (j_id j) = (Inr (job_cols j), d)"
  by (simp add: Job_get_def query_def assms first_row_def)

lemma Job_get_absent:
  assumes "i \<notin> set (map j_id (jobs d))"
  shows "Job_get d i = (Inl (NotFoundError (''No job: '' @ show_int i)), d)"
proof -
  have "filter (has_id i) (jobs d) = []"
    using assms by (simp add: has_id_filter_empty)
  then show ?thesis
    by (simp add: Job_get_def query_def first_row_def)
qed

lemma Company_remove_absent:
  assumes "h \<notin> set (map c_handle (companies d))"
  shows "Company_remove d h = (Inl (NotFoundError (''No company: '' @ h)), d)"
proof -
  have "filter (has_handle h) (companies d) = []"
    using assms by (simp add: has_handle_filter_empty)
  then show ?thesis
    by (simp add: Company_remove_def query_def delete_company_def first_row_def)
qed

lemma Job_remove_absent:
  assumes "i \<notin> set (map j_id (jobs d))"
  shows "Job_remove d i = (Inl (NotFoundError (''No job: '' @ show_int i)), d)"
proof -
  have e: "filter (has_id i) (jobs d) = []"
    using assms by (simp add: has_id_filter_empty)
  then have "filter (\<lambda>j. \<not> has_id i j) (jobs d) = jobs d"
    by (simp add: filter_empty_conv)
  with e show ?thesis
    by (simp add: Job_remove_def query_def delete_job_def first_row_def)
qed

section \<open>Filtered selection\<close>

text \<open>
  The empty condition, and the condition of \<open>hasEquity: true\<close> alone on any store.
\<close>

lemma where_pred_empty: "where_pred tc nc [] = Inl syntax_error_at_ORDER"
  by (simp add: where_pred_def)

lemma lex_equity: "lex_sql Idle ''equity > 0'' = Some [T_word ''equity'', T_sym ''>'', T_num 0]"
  by code_simp

lemma parse_equity: "parse_where [T_word ''equity'', T_sym ''>'', T_num 0] = Some [[Cmp ''equity'' ''>'' 0]]"
  by code_simp

lemma where_pred_equity:
  "where_pred job_text_col job_num_col ''equity > 0'' = Inr (\<lambda>r. has_equity r \<or> False)"
  unfolding where_pred_def lex_equity
  by (simp add: parse_equity atom_pred_def job_num_col_def cmp_op_def has_equity_def cong: option.case_cong)

lemma Job_findFiltered_hasEquity_alone:
  "Job_findFiltered d \<lparr>jf_title = None, jf_minSalary = None, jf_hasEquity = Some True\<rparr> =
     (Inr (map job_cols (sort_key j_id (filter has_equity (jobs d)))), d)"
  by (simp add: Job_findFiltered_def push_if_def query_def select_where_def where_pred_equity)

text \<open>
  The \<open>findFiltered\<close> tests of \<open>job.test.js\<close> on the example store, in their order.
\<close>

lemma Job_findFiltered_tests:
  "fst (Job_findFiltered test_db \<lparr>jf_title = Some ''j'', jf_minSalary = None, jf_hasEquity = None\<rparr>) =
     Inr (map job_cols (jobs test_db)) \<and>
   fst (Job_findFiltered test_db \<lparr>jf_title = None, jf_minSalary = Some 5, jf_hasEquity = None\<rparr>) =
     Inr (map job_cols (tl (jobs test_db))) \<and>
   fst (Job_findFiltered test_db \<lparr>jf_title = None, jf_minSalary = None, jf_hasEquity = Some True\<rparr>) =
     Inr (map job_cols (tl (jobs test_db))) \<and>
   fst (Job_findFiltered test_db \<lparr>jf_title = Some ''c'', jf_minSalary = Some 2, jf_hasEquity = None\<rparr>) =
     Inr [] \<and>
   fst (Job_findFiltered test_db \<lparr>jf_title = Some ''c'', jf_minSalary = None, jf_hasEquity = Some True\<rparr>) =
     Inr [] \<and>
   fst (Job_findFiltered test_db \<lparr>jf_title = None, jf_minSalary = Some 2, jf_hasEquity = Some True\<rparr>) =
     Inr (map job_cols (tl (jobs test_db))) \<and>
   fst (Job_findFiltered test_db \<lparr>jf_title = Some ''1'', jf_minSalary = Some 2, jf_hasEquity = Some False\<rparr>) =
     Inr (map job_cols (tl (tl (jobs test_db))))"
  by code_simp

section \<open>Updating\<close>

lemma update_rows_none_match:
  "\<forall>r \<in> set rs. \<not> P r \<Longrightarrow> update_rows P f rs = Some (rs, [])"
  by (induction rs) auto

lemma update_rows_map:
  "update_rows P f rs = Some (tbl, upd) \<Longrightarrow>
     tbl = map (\<lambda>r. if P r then the (f r) else r) rs \<and>
     upd = map (\<lambda>r. the (f r)) (filter P rs) \<and>
     (\<forall>r \<in> set rs. P r \<longrightarrow> f r \<noteq> None)"
proof (induction rs arbitrary: tbl upd)
  case Nil
  then show ?case by simp
next
  case (Cons r rs)
  show ?case
  proof (cases "P r")
    case True
    with Cons.prems obtain r' t u where "f r = Some r'" "update_rows P f rs = Some (t, u)"
      "tbl = r' # t" "upd = r' # u"
      by (auto split: option.splits)
    with Cons.IH[of t u] True show ?thesis by simp
  next
    case False
    with Cons.prems obtain t where "update_rows P f rs = Some (t, upd)" "tbl = r # t"
      by (auto split: option.splits)
    with Cons.IH[of t upd] False show ?thesis by simp
  qed
qed

lemma update_rows_subset:
  "update_rows P f rs = Some (tbl, upd) \<Longrightarrow> set upd \<subseteq> set tbl"
proof (induction rs arbitrary: tbl upd)
  case Nil
  then show ?case by simp
next
  case (Cons r rs)
  then show ?case
    by (auto split: if_splits option.splits)
qed

lemma update_rows_filter:
  assumes "update_rows P f rs = Some (tbl, upd)"
    and "\<And>r r'. P r \<Longrightarrow> f r = Some r' \<Longrightarrow> P r'"
  shows "filter P tbl = upd"
  using assms(1)
proof (induction rs arbitrary: tbl upd)
  case Nil
  then show ?case by simp
next
  case (Cons r rs)
  show ?case
  proof (cases "P r")
    case True
    with Cons.prems obtain r' t u where f: "f r = Some r'" and u: "update_rows P f rs = Some (t, u)"
      and e: "tbl = r' # t" "upd = r' # u"
      by (auto split: option.splits)
    from assms(2)[OF True f] Cons.IH[OF u] e show ?thesis by simp
  next
    case False
    with Cons.prems obtain t where u: "update_rows P f rs = Some (t, upd)" and e: "tbl = r # t"
      by (auto split: option.splits)
    from False Cons.IH[OF u] e show ?thesis by simp
  qed
qed

lemma no_handle: "h \<notin> set (map c_handle cs) \<Longrightarrow> \<forall>c \<in> set cs. \<not> has_handle h c"
  by (auto simp: has_handle_def)

lemma no_id: "i \<notin> set (map j_id js) \<Longrightarrow> \<forall>j \<in> set js. \<not> has_id i j"
  by (auto simp: has_id_def)

lemma update_companies_absent:
  assumes "h \<notin> set (map c_handle (companies d))"
  shows "update_companies asg h d = (Inr [], d) \<or> update_companies asg h d = (Inl rejected, d)"
  using update_rows_none_match[OF no_handle[OF assms], of "assign_all company_set asg"]
  by (simp add: update_companies_def)

lemma update_jobs_absent:
  assumes "i \<notin> set (map j_id (jobs d))"
  shows "update_jobs asg i d = (Inr [], d) \<or> update_jobs asg i d = (Inl rejected, d)"
  using update_rows_none_match[OF no_id[OF assms], of "assign_all job_set asg"]
  by (simp add: update_jobs_def)

lemma update_companies_absent_accepted:
  assumes "h \<notin> set (map c_handle (companies d))" and "distinct (map fst asg)"
    and "list_all company_accepts asg" and "''handle'' \<notin> set (map fst asg)"
  shows "update_companies asg h d = (Inr [], d)"
  using update_rows_none_match[OF no_handle[OF assms(1)], of "assign_all company_set asg"] assms(2-)
  by (simp add: update_companies_def)

lemma update_jobs_absent_accepted:
  assumes "i \<notin> set (map j_id (jobs d))" and "distinct (map fst asg)"
    and "list_all job_accepts asg" and "''id'' \<notin> set (map fst asg)"
  shows "update_jobs asg i d = (Inr [], d)"
  using update_rows_none_match[OF no_id[OF assms(1)], of "assign_all job_set asg"] assms(2-)
  by (simp add: update_jobs_def)

lemma Company_update_absent:
  assumes "h \<notin> set (map c_handle (companies d))"
  shows "\<exists>e. Company_update d h data = (Inl e, d)"
proof (cases "data = []")
  case True
  then show ?thesis by (simp add: Company_update_empty)
next
  case False
  from Company_update_cases[OF False, of d h] show ?thesis
  proof
    assume "\<exists>e. Company_update d h data = (Inl e, d)"
    then show ?thesis .
  next
    assume "\<exists>asg. Company_update d h data =
                  finish_update (''No company: '' @ h) (update_companies asg h d)"
    then obtain asg where a: "Company_update d h data =
                  finish_update (''No company: '' @ h) (update_companies asg h d)" ..
    from update_companies_absent[OF assms, of asg] show ?thesis
      by (auto simp: a finish_update_def first_row_def)
  qed
qed

lemma Job_update_absent:
  assumes "i \<notin> set (map j_id (jobs d))"
  shows "\<exists>e. Job_update d i data = (Inl e, d)"
proof (cases "data = []")
  case True
  then show ?thesis by (simp add: Job_update_empty)
next
  case False
  from Job_update_cases[OF False, of d i] show ?thesis
  proof
    assume "\<exists>e. Job_update d i data = (Inl e, d)"
    then show ?thesis .
  next
    assume "\<exists>asg. Job_update d i data =
                  finish_update (''No job: '' @ show_int i) (update_jobs asg i d)"
    then obtain asg where a: "Job_update d i data =
                  finish_update (''No job: '' @ show_int i) (update_jobs asg i d)" ..
    from update_jobs_absent[OF assms, of asg] show ?thesis
      by (auto simp: a finish_update_def first_row_def)
  qed
qed

lemma storage_company:
  "storage_name company_alias ''name'' = ''name''"
  "storage_name company_alias ''description'' = ''description''"
  "storage_name company_alias ''numEmployees'' = ''num_employees''"
  "storage_name company_alias ''logoUrl'' = ''logo_url''"
  by (simp_all add: storage_name_def get_property_def Object_prototype_def truthy_def
      template_text_def company_alias_def)

lemma storage_company_iff:
  assumes "k = ''name'' \<or> k = ''description'' \<or> k = ''numEmployees'' \<or> k = ''logoUrl''"
  shows "(storage_name company_alias k = ''name'') = (k = ''name'')"
    and "(storage_name company_alias k = ''description'') = (k = ''description'')"
    and "(storage_name company_alias k = ''num_employees'') = (k = ''numEmployees'')"
    and "(storage_name company_alias k = ''logo_url'') = (k = ''logoUrl'')"
    and "storage_name company_alias k \<noteq> ''handle''"
    and "dquote \<notin> set (storage_name company_alias k)"
  using assms storage_company by (elim disjE; simp)+

lemma image_key_iff:
  assumes "\<And>k. k \<in> A \<Longrightarrow> (f k = c) = (k = c')"
  shows "(c \<in> f ` A) = (c' \<in> A)"
  using assms by (auto simp: image_iff)

lemma image_key_notin:
  assumes "\<And>k. k \<in> A \<Longrightarrow> f k \<noteq> c"
  shows "c \<notin> f ` A"
  using assms by auto

lemma company_keys_storage:
  assumes "set ks \<subseteq> {''name'', ''description'', ''numEmployees'', ''logoUrl''}"
  shows "list_all (\<lambda>k. dquote \<notin> set (storage_name company_alias k)) ks"
    and "inj_on (storage_name company_alias) (set ks)"
    and "''handle'' \<notin> storage_name company_alias ` set ks"
    and "(''name'' \<in> storage_name company_alias ` set ks) = (''name'' \<in> set ks)"
    and "(''description'' \<in> storage_name company_alias ` set ks) = (''description'' \<in> set ks)"
    and "(''num_employees'' \<in> storage_name company_alias ` set ks) = (''numEmployees'' \<in> set ks)"
    and "(''logo_url'' \<in> storage_name company_alias ` set ks) = (''logoUrl'' \<in> set ks)"
proof -
  have k: "\<And>k. k \<in> set ks \<Longrightarrow> k = ''name'' \<or> k = ''description'' \<or> k = ''numEmployees'' \<or> k = ''logoUrl''"
    using assms by (simp add: subset_iff)
  show "list_all (\<lambda>k. dquote \<notin> set (storage_name company_alias k)) ks"
    unfolding list_all_iff using storage_company_iff(6)[OF k] by simp
  show "inj_on (storage_name company_alias) (set ks)"
  proof (rule inj_onI)
    fix x y assume "x \<in> set ks" "y \<in> set ks" "storage_name company_alias x = storage_name company_alias y"
    then have y: "y \<in> set ks" and e: "storage_name company_alias y = storage_name company_alias x"
      and x: "x = ''name'' \<or> x = ''description'' \<or> x = ''numEmployees'' \<or> x = ''logoUrl''"
      using k[of x] by simp_all
    from x e storage_company_iff(1-4)[OF k[OF y]] storage_company show "x = y"
      by (elim disjE) simp_all
  qed
  show "''handle'' \<notin> storage_name company_alias ` set ks"
    by (rule image_key_notin) (rule storage_company_iff(5)[OF k])
  show "(''name'' \<in> storage_name company_alias ` set ks) = (''name'' \<in> set ks)"
    by (rule image_key_iff) (rule storage_company_iff(1)[OF k])
  show "(''description'' \<in> storage_name company_alias ` set ks) = (''description'' \<in> set ks)"
    by (rule image_key_iff) (rule storage_company_iff(2)[OF k])
  show "(''num_employees'' \<in> storage_name company_alias ` set ks) = (''numEmployees'' \<in> set ks)"
    by (rule image_key_iff) (rule storage_company_iff(3)[OF k])
  show "(''logo_url'' \<in> storage_name company_alias ` set ks) = (''logoUrl'' \<in> set ks)"
    by (rule image_key_iff) (rule storage_company_iff(4)[OF k])
qed

lemma job_keys:
  assumes "set ks \<subseteq> {''title'', ''salary'', ''equity''}"
  shows "list_all (\<lambda>k. storage_name Map.empty k = k \<and> dquote \<notin> set k) ks" and "''id'' \<notin> set ks"
    and "''company_handle'' \<notin> set ks"
proof -
  have k: "\<And>k. k \<in> set ks \<Longrightarrow> k = ''title'' \<or> k = ''salary'' \<or> k = ''equity''"
    using assms by (simp add: subset_iff)
  have "storage_name Map.empty k = k \<and> dquote \<notin> set k" if "k \<in> set ks" for k
    using k[OF that]
    by (elim disjE) (simp_all add: storage_name_def get_property_def Object_prototype_def truthy_def)
  then show "list_all (\<lambda>k. storage_name Map.empty k = k \<and> dquote \<notin> set k) ks"
    by (simp add: list_all_iff)
  show "''id'' \<notin> set ks"
  proof
    assume "''id'' \<in> set ks"
    from k[OF this] show False by simp
  qed
  show "''company_handle'' \<notin> set ks"
  proof
    assume "''company_handle'' \<in> set ks"
    from k[OF this] show False by simp
  qed
qed

lemma company_set_frame:
  assumes "company_set (col, v) c = Some c'"
  shows "(col \<noteq> ''handle'' \<longrightarrow> c_handle c' = c_handle c) \<and>
         (col \<noteq> ''name'' \<longrightarrow> c_name c' = c_name c) \<and>
         (col \<noteq> ''description'' \<longrightarrow> c_description c' = c_description c) \<and>
         (col \<noteq> ''num_employees'' \<longrightarrow> c_num_employees c' = c_num_employees c) \<and>
         (col \<noteq> ''logo_url'' \<longrightarrow> c_logo_url c' = c_logo_url c)"
  using assms unfolding company_set_def
  by (cases v) (auto split: if_splits)

lemma assign_all_company_frame:
  assumes "assign_all company_set asg c = Some c'"
  shows "(''handle'' \<notin> set (map fst asg) \<longrightarrow> c_handle c' = c_handle c) \<and>
         (''name'' \<notin> set (map fst asg) \<longrightarrow> c_name c' = c_name c) \<and>
         (''description'' \<notin> set (map fst asg) \<longrightarrow> c_description c' = c_description c) \<and>
         (''num_employees'' \<notin> set (map fst asg) \<longrightarrow> c_num_employees c' = c_num_employees c) \<and>
         (''logo_url'' \<notin> set (map fst asg) \<longrightarrow> c_logo_url c' = c_logo_url c)"
  using assms
proof (induction asg arbitrary: c)
  case Nil
  then show ?case by simp
next
  case (Cons a asg)
  obtain col v where a: "a = (col, v)" by (cases a)
  from Cons.prems a obtain c1 where s: "company_set (col, v) c = Some c1"
    and r: "assign_all company_set asg c1 = Some c'"
    by (auto split: option.splits)
  from company_set_frame[OF s] Cons.IH[OF r] a show ?case by auto
qed

lemma job_set_frame:
  assumes "job_set (col, v) j = Some j'"
  shows "(col \<noteq> ''id'' \<longrightarrow> j_id j' = j_id j) \<and>
         (col \<noteq> ''title'' \<longrightarrow> j_title j' = j_title j) \<and>
         (col \<noteq> ''salary'' \<longrightarrow> j_salary j' = j_salary j) \<and>
         (col \<noteq> ''equity'' \<longrightarrow> j_equity j' = j_equity j) \<and>
         (col \<noteq> ''company_handle'' \<longrightarrow> j_company_handle j' = j_company_handle j)"
  using assms unfolding job_set_def
  by (cases v) (auto split: if_splits)

lemma assign_all_job_frame:
  assumes "assign_all job_set asg j = Some j'"
  shows "(''id'' \<notin> set (map fst asg) \<longrightarrow> j_id j' = j_id j) \<and>
         (''title'' \<notin> set (map fst asg) \<longrightarrow> j_title j' = j_title j) \<and>
         (''salary'' \<notin> set (map fst asg) \<longrightarrow> j_salary j' = j_salary j) \<and>
         (''equity'' \<notin> set (map fst asg) \<longrightarrow> j_equity j' = j_equity j) \<and>
         (''company_handle'' \<notin> set (map fst asg) \<longrightarrow> j_company_handle j' = j_company_handle j)"
  using assms
proof (induction asg arbitrary: j)
  case Nil
  then show ?case by simp
next
  case (Cons a asg)
  obtain col v where a: "a = (col, v)" by (cases a)
  from Cons.prems a obtain j1 where s: "job_set (col, v) j = Some j1"
    and r: "assign_all job_set asg j1 = Some j'"
    by (auto split: option.splits)
  from job_set_frame[OF s] Cons.IH[OF r] a show ?case by auto
qed

text \<open>
  The store after an update that leaves the key column alone.
\<close>

lemma update_companies_keeps_key:
  assumes nk: "''handle'' \<notin> set (map fst asg)"
  shows "snd (update_companies asg h d) = d \<or>
         (\<exists>cs upd. update_rows (has_handle h) (assign_all company_set asg) (companies d) = Some (cs, upd) \<and>
                    update_companies asg h d = (Inr (map company_cols upd), d\<lparr>companies := cs\<rparr>))"
proof (cases "update_rows (has_handle h) (assign_all company_set asg) (companies d)")
  case None
  then show ?thesis by (simp add: update_companies_def)
next
  case (Some p)
  obtain cs upd where p: "p = (cs, upd)" by (cases p)
  from update_rows_map[OF Some[unfolded p]]
  have upd: "upd = map (\<lambda>r. the (assign_all company_set asg r)) (filter (has_handle h) (companies d))"
    and ok: "\<forall>r \<in> set (companies d). has_handle h r \<longrightarrow> assign_all company_set asg r \<noteq> None"
    by simp_all
  have "\<forall>c \<in> set upd. has_handle h c"
  proof
    fix c assume "c \<in> set upd"
    then obtain r where r: "r \<in> set (companies d)" "has_handle h r"
      and c: "c = the (assign_all company_set asg r)"
      unfolding upd by auto
    with ok obtain c' where c': "assign_all company_set asg r = Some c'" by auto
    from assign_all_company_frame[OF c'] nk r c c' show "has_handle h c"
      by (simp add: has_handle_def)
  qed
  then have "\<not> list_ex (\<lambda>c. \<not> has_handle h c) upd"
    by (simp add: list_ex_iff)
  then show ?thesis
    using Some p nk by (simp add: update_companies_def)
qed

lemma update_jobs_keeps_key:
  assumes nk: "''id'' \<notin> set (map fst asg)" and nf: "''company_handle'' \<notin> set (map fst asg)"
  shows "snd (update_jobs asg i d) = d \<or>
         (\<exists>js upd. update_rows (has_id i) (assign_all job_set asg) (jobs d) = Some (js, upd) \<and>
                    update_jobs asg i d = (Inr (map job_cols upd), d\<lparr>jobs := js\<rparr>))"
proof (cases "update_rows (has_id i) (assign_all job_set asg) (jobs d)")
  case None
  then show ?thesis by (simp add: update_jobs_def)
next
  case (Some p)
  obtain js upd where p: "p = (js, upd)" by (cases p)
  show ?thesis
    using Some p nk nf by (simp add: update_jobs_def)
qed

lemma snd_finish_update: "snd (finish_update msg r) = snd r"
  by (cases r) (auto simp: finish_update_def split: sum.splits option.splits)

lemma company_frame_refl: "company_frame h ks c c"
  by (simp add: company_frame_def)

lemma job_frame_refl: "job_frame i ks j j"
  by (simp add: job_frame_def)

lemma Company_update_frame:
  assumes ck: "set (map fst data) \<subseteq> {''name'', ''description'', ''numEmployees'', ''logoUrl''}"
  shows "\<exists>cs. snd (Company_update d h data) = d\<lparr>companies := cs\<rparr> \<and>
              list_all2 (company_frame h (map fst data)) (companies d) cs"
proof (cases "data = []")
  case True
  have "d = d\<lparr>companies := companies d\<rparr>" by simp
  moreover have "list_all2 (company_frame h (map fst data)) (companies d) (companies d)"
    by (simp add: list_all2_same company_frame_refl)
  ultimately show ?thesis
    using True by (metis Company_update_empty snd_conv)
next
  case False
  let ?asg = "map (\<lambda>(k, v). (storage_name company_alias k, v)) data"
  have cols: "set (map fst ?asg) = storage_name company_alias ` set (map fst data)"
    by (auto simp: image_iff split_def)
  note ks = company_keys_storage[OF ck]
  have nk: "''handle'' \<notin> set (map fst ?asg)"
    unfolding cols by (rule ks(3))
  have u: "snd (Company_update d h data) = snd (update_companies ?asg h d)"
    using Company_update_bound[OF False ks(1), of d h] by (simp add: snd_finish_update)
  from update_companies_keeps_key[OF nk, of h d] show ?thesis
  proof
    assume "snd (update_companies ?asg h d) = d"
    moreover have "d = d\<lparr>companies := companies d\<rparr>" by simp
    moreover have "list_all2 (company_frame h (map fst data)) (companies d) (companies d)"
      by (simp add: list_all2_same company_frame_refl)
    ultimately show ?thesis using u by metis
  next
    assume "\<exists>cs upd. update_rows (has_handle h) (assign_all company_set ?asg) (companies d) = Some (cs, upd) \<and>
                    update_companies ?asg h d = (Inr (map company_cols upd), d\<lparr>companies := cs\<rparr>)"
    then obtain cs upd where
      ur: "update_rows (has_handle h) (assign_all company_set ?asg) (companies d) = Some (cs, upd)"
      and uc: "update_companies ?asg h d = (Inr (map company_cols upd), d\<lparr>companies := cs\<rparr>)"
      by blast
    from update_rows_map[OF ur]
    have cs: "cs = map (\<lambda>r. if has_handle h r then the (assign_all company_set ?asg r) else r) (companies d)"
      and ok: "\<forall>r \<in> set (companies d). has_handle h r \<longrightarrow> assign_all company_set ?asg r \<noteq> None"
      by simp_all
    have "company_frame h (map fst data) c
            (if has_handle h c then the (assign_all company_set ?asg c) else c)"
      if c: "c \<in> set (companies d)" for c
    proof (cases "has_handle h c")
      case False
      then show ?thesis by (simp add: company_frame_refl)
    next
      case True
      with ok c obtain c' where c': "assign_all company_set ?asg c = Some c'" by auto
      from assign_all_company_frame[OF c'] nk True
      show ?thesis
        unfolding cols ks(4-7) by (simp add: c' company_frame_def has_handle_def)
    qed
    then have "list_all2 (company_frame h (map fst data)) (companies d) cs"
      unfolding cs by (simp add: list_all2_map2 list_all2_same)
    with u uc show ?thesis by auto
  qed
qed

lemma Job_update_frame:
  assumes jk: "set (map fst data) \<subseteq> {''title'', ''salary'', ''equity''}"
  shows "\<exists>js. snd (Job_update d i data) = d\<lparr>jobs := js\<rparr> \<and>
              list_all2 (job_frame i (map fst data)) (jobs d) js"
proof (cases "data = []")
  case True
  have "d = d\<lparr>jobs := jobs d\<rparr>" by simp
  moreover have "list_all2 (job_frame i (map fst data)) (jobs d) (jobs d)"
    by (simp add: list_all2_same job_frame_refl)
  ultimately show ?thesis
    using True by (metis Job_update_empty snd_conv)
next
  case False
  note ks = job_keys[OF jk]
  have u: "snd (Job_update d i data) = snd (update_jobs data i d)"
    using Job_update_bound[OF False ks(1), of d i] by (simp add: snd_finish_update)
  from update_jobs_keeps_key[OF ks(2,3), of i d] show ?thesis
  proof
    assume "snd (update_jobs data i d) = d"
    moreover have "d = d\<lparr>jobs := jobs d\<rparr>" by simp
    moreover have "list_all2 (job_frame i (map fst data)) (jobs d) (jobs d)"
      by (simp add: list_all2_same job_frame_refl)
    ultimately show ?thesis using u by metis
  next
    assume "\<exists>js upd. update_rows (has_id i) (assign_all job_set data) (jobs d) = Some (js, upd) \<and>
                    update_jobs data i d = (Inr (map job_cols upd), d\<lparr>jobs := js\<rparr>)"
    then obtain js upd where
      ur: "update_rows (has_id i) (assign_all job_set data) (jobs d) = Some (js, upd)"
      and uc: "update_jobs data i d = (Inr (map job_cols upd), d\<lparr>jobs := js\<rparr>)"
      by blast
    from update_rows_map[OF ur]
    have js: "js = map (\<lambda>r. if has_id i r then the (assign_all job_set data r) else r) (jobs d)"
      and ok: "\<forall>r \<in> set (jobs d). has_id i r \<longrightarrow> assign_all job_set data r \<noteq> None"
      by simp_all
    have "job_frame i (map fst data) j
            (if has_id i j then the (assign_all job_set data j) else j)"
      if j: "j \<in> set (jobs d)" for j
    proof (cases "has_id i j")
      case False
      then show ?thesis by (simp add: job_frame_refl)
    next
      case True
      with ok j obtain j' where j': "assign_all job_set data j = Some j'" by auto
      from assign_all_job_frame[OF j'] ks(2,3) True
      show ?thesis
        by (simp add: j' job_frame_def has_id_def)
    qed
    then have "list_all2 (job_frame i (map fst data)) (jobs d) js"
      unfolding js by (simp add: list_all2_map2 list_all2_same)
    with u uc show ?thesis by auto
  qed
qed

lemma company_field_ok_key:
  assumes "company_field_ok a"
  shows "fst a = ''name'' \<or> fst a = ''description'' \<or> fst a = ''numEmployees'' \<or> fst a = ''logoUrl''"
  using assms unfolding company_field_ok_def by blast

lemma company_field_ok_accepts:
  assumes "company_field_ok (k, v)"
  shows "company_accepts (storage_name company_alias k, v)"
proof -
  from assms have "(k = ''name'' \<or> k = ''description'' \<or> k = ''logoUrl'') \<and> is_text v \<or>
      k = ''numEmployees'' \<and> is_int v"
    by (simp add: company_field_ok_def)
  then show ?thesis
    using storage_company by (elim disjE conjE) (simp_all add: company_accepts_def)
qed

lemma job_field_ok_key:
  assumes "job_field_ok a"
  shows "fst a = ''title'' \<or> fst a = ''salary'' \<or> fst a = ''equity''"
  using assms unfolding job_field_ok_def by blast

lemma job_field_ok_accepts:
  assumes "job_field_ok (k, v)"
  shows "job_accepts (k, v)"
proof -
  from assms have "k = ''title'' \<and> is_text v \<or> k = ''salary'' \<and> is_int v \<or>
      k = ''equity'' \<and> is_num v"
    by (simp add: job_field_ok_def)
  then show ?thesis
    by (elim disjE conjE) (simp_all add: job_accepts_def)
qed

lemma Company_update_absent_well_formed:
  assumes a: "h \<notin> set (map c_handle (companies d))"
    and ne: "data \<noteq> []" and dist: "distinct (map fst data)"
    and ok: "list_all company_field_ok data"
  shows "Company_update d h data = (Inl (NotFoundError (''No company: '' @ h)), d)"
proof -
  let ?asg = "map (\<lambda>(k, v). (storage_name company_alias k, v)) data"
  have ck: "set (map fst data) \<subseteq> {''name'', ''description'', ''numEmployees'', ''logoUrl''}"
  proof
    fix k assume "k \<in> set (map fst data)"
    then obtain x where "x \<in> set data" "k = fst x" by (auto simp: image_iff)
    with ok company_field_ok_key[of x] show "k \<in> {''name'', ''description'', ''numEmployees'', ''logoUrl''}"
      by (simp add: list_all_iff)
  qed
  note ks = company_keys_storage[OF ck]
  have cols: "map fst ?asg = map (storage_name company_alias) (map fst data)"
    by (simp add: split_def comp_def)
  have d: "distinct (map fst ?asg)"
    unfolding cols
    using dist ks(2) distinct_map[of "storage_name company_alias" "map fst data"] by blast
  have acc: "list_all company_accepts ?asg"
    using ok company_field_ok_accepts by (auto simp: list_all_iff)
  have "set (map fst ?asg) = storage_name company_alias ` set (map fst data)"
    by (auto simp: image_iff split_def)
  then have nk: "''handle'' \<notin> set (map fst ?asg)"
    using ks(3) by (simp only:) simp
  have "update_companies ?asg h d = (Inr [], d)"
    using a d acc nk by (rule update_companies_absent_accepted)
  then show ?thesis
    using Company_update_bound[OF ne ks(1), of d h]
    by (simp add: finish_update_def first_row_def)
qed

lemma Job_update_absent_well_formed:
  assumes a: "i \<notin> set (map j_id (jobs d))"
    and ne: "data \<noteq> []" and dist: "distinct (map fst data)"
    and ok: "list_all job_field_ok data"
  shows "Job_update d i data = (Inl (NotFoundError (''No job: '' @ show_int i)), d)"
proof -
  have jk: "set (map fst data) \<subseteq> {''title'', ''salary'', ''equity''}"
  proof
    fix k assume "k \<in> set (map fst data)"
    then obtain x where "x \<in> set data" "k = fst x" by (auto simp: image_iff)
    with ok job_field_ok_key[of x] show "k \<in> {''title'', ''salary'', ''equity''}"
      by (simp add: list_all_iff)
  qed
  note ks = job_keys[OF jk]
  have acc: "list_all job_accepts data"
    using ok job_field_ok_accepts by (auto simp: list_all_iff)
  have "update_jobs data i d = (Inr [], d)"
    using a dist acc ks(2) by (rule update_jobs_absent_accepted)
  then show ?thesis
    using Job_update_bound[OF ne ks(1), of d i]
    by (simp add: finish_update_def first_row_def)
qed

lemma finish_update_Inr:
  assumes "finish_update msg x = (Inr r, d')"
  shows "\<exists>rows. x = (Inr (r # rows), d')"
  using assms
  by (cases x) (auto simp: finish_update_def first_row_def split: sum.splits list.splits)

lemma update_companies_Inr:
  assumes "update_companies asg h d = (Inr rows, d')"
  obtains cs upd where
    "update_rows (has_handle h) (assign_all company_set asg) (companies d) = Some (cs, upd)"
    and "rows = map company_cols upd" and "companies d' = cs"
    and "''handle'' \<in> set (map fst asg) \<Longrightarrow> distinct (map c_handle cs)"
proof (cases "update_rows (has_handle h) (assign_all company_set asg) (companies d)")
  case None
  with assms show thesis
    by (simp add: update_companies_def split: if_splits)
next
  case (Some p)
  obtain cs upd where p: "p = (cs, upd)" by (cases p)
  from assms Some p have 1: "rows = map company_cols upd"
    unfolding update_companies_def by (clarsimp split: if_splits)
  from assms Some p have 2: "companies d' = cs"
    unfolding update_companies_def by (clarsimp split: if_splits)
  from assms Some p have 3: "''handle'' \<in> set (map fst asg) \<Longrightarrow> distinct (map c_handle cs)"
    unfolding update_companies_def by (simp split: if_splits)
  from Some p 1 2 3 that show thesis by simp
qed

lemma update_jobs_Inr:
  assumes "update_jobs asg i d = (Inr rows, d')"
  obtains js upd where
    "update_rows (has_id i) (assign_all job_set asg) (jobs d) = Some (js, upd)"
    and "rows = map job_cols upd" and "jobs d' = js"
    and "''id'' \<in> set (map fst asg) \<Longrightarrow> distinct (map j_id js)"
proof (cases "update_rows (has_id i) (assign_all job_set asg) (jobs d)")
  case None
  with assms show thesis
    by (simp add: update_jobs_def split: if_splits)
next
  case (Some p)
  obtain js upd where p: "p = (js, upd)" by (cases p)
  from assms Some p have 1: "rows = map job_cols upd"
    unfolding update_jobs_def by (clarsimp split: if_splits)
  from assms Some p have 2: "jobs d' = js"
    unfolding update_jobs_def by (clarsimp split: if_splits)
  from assms Some p have 3: "''id'' \<in> set (map fst asg) \<Longrightarrow> distinct (map j_id js)"
    unfolding update_jobs_def by (simp split: if_splits)
  from Some p 1 2 3 that show thesis by simp
qed

text \<open>
  The first row with the key of an updated row is that row.
\<close>

lemma updated_company_first:
  assumes u: "update_companies asg h d = (Inr (r # rows), d')"
  obtains c rest where "r = company_cols c"
    and "filter (has_handle (c_handle c)) (companies d') = c # rest"
    and "''handle'' \<notin> set (map fst asg) \<Longrightarrow> c_handle c = h"
proof -
  obtain cs upd where
    ur: "update_rows (has_handle h) (assign_all company_set asg) (companies d) = Some (cs, upd)"
    and rows: "r # rows = map company_cols upd" and cs: "companies d' = cs"
    and dist: "''handle'' \<in> set (map fst asg) \<Longrightarrow> distinct (map c_handle cs)"
    by (rule update_companies_Inr[OF u]) (rule that)
  from rows obtain c us where upd: "upd = c # us" and r: "r = company_cols c"
    by (cases upd) auto
  show thesis
  proof (cases "''handle'' \<in> set (map fst asg)")
    case True
    have "c \<in> set cs"
      using update_rows_subset[OF ur] upd by auto
    with dist[OF True] have "filter (\<lambda>y. c_handle y = c_handle c) cs = [c]"
      by (simp add: filter_unique)
    then have "filter (has_handle (c_handle c)) (companies d') = [c]"
      by (simp add: cs has_handle_def[abs_def])
    with r True that show thesis by simp
  next
    case False
    have keep: "has_handle h x'" if "has_handle h x" "assign_all company_set asg x = Some x'" for x x'
      using assign_all_company_frame[OF that(2)] False that(1) by (simp add: has_handle_def)
    have f: "filter (has_handle h) cs = c # us"
      unfolding upd[symmetric] using ur keep by (rule update_rows_filter)
    from filter_Cons_mem[OF f] have h: "c_handle c = h" by (simp add: has_handle_def)
    from f h cs have "filter (has_handle (c_handle c)) (companies d') = c # us" by simp
    with r h that show thesis by simp
  qed
qed

lemma updated_job_first:
  assumes u: "update_jobs asg i d = (Inr (r # rows), d')"
  obtains j rest where "r = job_cols j"
    and "filter (has_id (j_id j)) (jobs d') = j # rest"
    and "''id'' \<notin> set (map fst asg) \<Longrightarrow> j_id j = i"
proof -
  obtain js upd where
    ur: "update_rows (has_id i) (assign_all job_set asg) (jobs d) = Some (js, upd)"
    and rows: "r # rows = map job_cols upd" and js: "jobs d' = js"
    and dist: "''id'' \<in> set (map fst asg) \<Longrightarrow> distinct (map j_id js)"
    by (rule update_jobs_Inr[OF u]) (rule that)
  from rows obtain j us where upd: "upd = j # us" and r: "r = job_cols j"
    by (cases upd) auto
  show thesis
  proof (cases "''id'' \<in> set (map fst asg)")
    case True
    have "j \<in> set js"
      using update_rows_subset[OF ur] upd by auto
    with dist[OF True] have "filter (\<lambda>y. j_id y = j_id j) js = [j]"
      by (simp add: filter_unique)
    then have "filter (has_id (j_id j)) (jobs d') = [j]"
      by (simp add: js has_id_def[abs_def])
    with r True that show thesis by simp
  next
    case False
    have keep: "has_id i x'" if "has_id i x" "assign_all job_set asg x = Some x'" for x x'
      using assign_all_job_frame[OF that(2)] False that(1) by (simp add: has_id_def)
    have f: "filter (has_id i) js = j # us"
      unfolding upd[symmetric] using ur keep by (rule update_rows_filter)
    from filter_Cons_mem[OF f] have h: "j_id j = i" by (simp add: has_id_def)
    from f h js have "filter (has_id (j_id j)) (jobs d') = j # us" by simp
    with r h that show thesis by simp
  qed
qed

lemma Company_update_reaches_store:
  assumes u: "Company_update d h data = (Inr r, d')"
  obtains asg rows where "update_companies asg h d = (Inr (r # rows), d')"
    and "set (map fst data) \<subseteq> {''name'', ''description'', ''numEmployees'', ''logoUrl''} \<Longrightarrow>
           ''handle'' \<notin> set (map fst asg)"
proof -
  have ne: "data \<noteq> []"
    using u by (auto simp: Company_update_empty)
  show thesis
  proof (cases "set (map fst data) \<subseteq> {''name'', ''description'', ''numEmployees'', ''logoUrl''}")
    case True
    let ?asg = "map (\<lambda>(k, v). (storage_name company_alias k, v)) data"
    note ks = company_keys_storage[OF True]
    have "set (map fst ?asg) = storage_name company_alias ` set (map fst data)"
      by (auto simp: image_iff split_def)
    then have nk: "''handle'' \<notin> set (map fst ?asg)"
      using ks(3) by (simp only:) simp
    from u Company_update_bound[OF ne ks(1), of d h]
    have "finish_update (''No company: '' @ h) (update_companies ?asg h d) = (Inr r, d')" by simp
    from finish_update_Inr[OF this] obtain rows where
      s: "update_companies ?asg h d = (Inr (r # rows), d')" ..
    show thesis by (rule that[OF s]) (rule nk)
  next
    case False
    from Company_update_cases[OF ne, of d h] u obtain asg where
      "finish_update (''No company: '' @ h) (update_companies asg h d) = (Inr r, d')" by auto
    from finish_update_Inr[OF this] obtain rows where
      s: "update_companies asg h d = (Inr (r # rows), d')" ..
    show thesis
    proof (rule that[OF s])
      assume "set (map fst data) \<subseteq> {''name'', ''description'', ''numEmployees'', ''logoUrl''}"
      with False show "''handle'' \<notin> set (map fst asg)" by (rule notE)
    qed
  qed
qed

lemma Job_update_reaches_store:
  assumes u: "Job_update d i data = (Inr r, d')"
  obtains asg rows where "update_jobs asg i d = (Inr (r # rows), d')"
    and "set (map fst data) \<subseteq> {''title'', ''salary'', ''equity''} \<Longrightarrow> ''id'' \<notin> set (map fst asg)"
proof -
  have ne: "data \<noteq> []"
    using u by (auto simp: Job_update_empty)
  show thesis
  proof (cases "set (map fst data) \<subseteq> {''title'', ''salary'', ''equity''}")
    case True
    note ks = job_keys[OF True]
    from u Job_update_bound[OF ne ks(1), of d i]
    have "finish_update (''No job: '' @ show_int i) (update_jobs data i d) = (Inr r, d')" by simp
    from finish_update_Inr[OF this] obtain rows where
      s: "update_jobs data i d = (Inr (r # rows), d')" ..
    show thesis by (rule that[OF s]) (rule ks(2))
  next
    case False
    from Job_update_cases[OF ne, of d i] u obtain asg where
      "finish_update (''No job: '' @ show_int i) (update_jobs asg i d) = (Inr r, d')" by auto
    from finish_update_Inr[OF this] obtain rows where
      s: "update_jobs asg i d = (Inr (r # rows), d')" ..
    show thesis
    proof (rule that[OF s])
      assume "set (map fst data) \<subseteq> {''title'', ''salary'', ''equity''}"
      with False show "''id'' \<notin> set (map fst asg)" by (rule notE)
    qed
  qed
qed

lemma Company_update_returns_stored:
  assumes u: "Company_update d h data = (Inr r, d')"
  shows "\<exists>c js. r = company_cols c \<and> c \<in> set (companies d') \<and>
           Company_get d' (c_handle c) = (Inr (r, js), d') \<and>
           (set (map fst data) \<subseteq> {''name'', ''description'', ''numEmployees'', ''logoUrl''} \<longrightarrow>
              c_handle c = h)"
proof -
  obtain asg rows where
    s: "update_companies asg h d = (Inr (r # rows), d')"
    and nk: "set (map fst data) \<subseteq> {''name'', ''description'', ''numEmployees'', ''logoUrl''} \<Longrightarrow>
           ''handle'' \<notin> set (map fst asg)"
    by (rule Company_update_reaches_store[OF u]) (rule that)
  obtain c rest where
    r: "r = company_cols c" and f: "filter (has_handle (c_handle c)) (companies d') = c # rest"
    and h: "''handle'' \<notin> set (map fst asg) \<Longrightarrow> c_handle c = h"
    by (rule updated_company_first[OF s]) (rule that)
  from Company_get_first[OF f] obtain js where
    g: "Company_get d' (c_handle c) = (Inr (company_cols c, js), d')" ..
  have m: "c \<in> set (companies d')"
    using filter_Cons_mem[OF f] by simp
  have k: "set (map fst data) \<subseteq> {''name'', ''description'', ''numEmployees'', ''logoUrl''} \<longrightarrow>
              c_handle c = h"
    by (intro impI) (rule h, rule nk)
  from r m g k show ?thesis
    by (intro exI[of _ c] exI[of _ js] conjI) (simp_all only:)
qed

lemma Job_update_returns_stored:
  assumes u: "Job_update d i data = (Inr r, d')"
  shows "\<exists>j. r = job_cols j \<and> j \<in> set (jobs d') \<and>
           Job_get d' (j_id j) = (Inr r, d') \<and>
           (set (map fst data) \<subseteq> {''title'', ''salary'', ''equity''} \<longrightarrow> j_id j = i)"
proof -
  obtain asg rows where
    s: "update_jobs asg i d = (Inr (r # rows), d')"
    and nk: "set (map fst data) \<subseteq> {''title'', ''salary'', ''equity''} \<Longrightarrow> ''id'' \<notin> set (map fst asg)"
    by (rule Job_update_reaches_store[OF u]) (rule that)
  obtain j rest where
    r: "r = job_cols j" and f: "filter (has_id (j_id j)) (jobs d') = j # rest"
    and h: "''id'' \<notin> set (map fst asg) \<Longrightarrow> j_id j = i"
    by (rule updated_job_first[OF s]) (rule that)
  have g: "Job_get d' (j_id j) = (Inr (job_cols j), d')"
    using f by (rule Job_get_first)
  have m: "j \<in> set (jobs d')"
    using filter_Cons_mem[OF f] by simp
  have k: "set (map fst data) \<subseteq> {''title'', ''salary'', ''equity''} \<longrightarrow> j_id j = i"
    by (intro impI) (rule h, rule nk)
  from r m g k show ?thesis
    by (intro exI[of _ j] conjI) (simp_all only:)
qed

lemma company_frame_handles:
  "list_all2 (company_frame h ks) cs cs' \<Longrightarrow> map c_handle cs' = map c_handle cs"
  by (induction rule: list_all2_induct) (simp_all add: company_frame_def)

lemma Company_update_keeps_handles:
  assumes ck: "set (map fst data) \<subseteq> {''name'', ''description'', ''numEmployees'', ''logoUrl''}"
    and u: "Company_update d h data = (r, d')"
  shows "map c_handle (companies d') = map c_handle (companies d)"
proof -
  from Company_update_frame[OF ck, of d h] obtain cs where
    s: "snd (Company_update d h data) = d\<lparr>companies := cs\<rparr>"
    and f: "list_all2 (company_frame h (map fst data)) (companies d) cs"
    by (elim exE conjE)
  from s u have "d' = d\<lparr>companies := cs\<rparr>" by simp
  then have "companies d' = cs" by simp
  with company_frame_handles[OF f] show ?thesis by simp
qed

section \<open>The claims\<close>

subsection \<open>findFiltered with an empty filter\<close>

text \<open>
  Claim C1 says that \<open>findFiltered\<close> with an empty filter mapping returns what
  \<open>findAll\<close> returns, the query of zero clauses being a valid one. The code does
  otherwise, for every store: with no recognized key \<open>paramArr\<close> stays empty, its join
  is the empty string, and the statement reads \<open>WHERE\<close> followed at once by
  \<open>ORDER BY\<close>, which the store refuses with a syntax error; \<open>findAll\<close> on the same
  store returns every row in order. The theorem evaluates both managers at that input.
\<close>

theorem findFiltered_empty_filter_rejected:
  "Company_findFiltered d \<lparr>cf_name = None, cf_minEmployees = None, cf_maxEmployees = None\<rparr> =
     (Inl syntax_error_at_ORDER, d) \<and>
   Company_findAll d = (Inr (map company_cols (sort_key c_name (companies d))), d) \<and>
   Job_findFiltered d \<lparr>jf_title = None, jf_minSalary = None, jf_hasEquity = None\<rparr> =
     (Inl syntax_error_at_ORDER, d) \<and>
   Job_findAll d = (Inr (map job_cols (sort_key j_id (jobs d))), d)"
  by (simp add: Company_findFiltered_def Job_findFiltered_def Company_findAll_def Job_findAll_def
        push_if_def query_def select_where_def where_pred_empty)

subsection \<open>The fragments and values of sqlForPartialUpdate\<close>

text \<open>
  Claim C2, amended. For a non-empty field mapping and any alias mapping,
  \<open>sqlForPartialUpdate\<close> returns the assignment fragments joined with a comma and a
  blank: one fragment per field, in the iteration order of the mapping, the \<open>i\<close>-th
  (from 0) being the storage name in double quotes, \<open>=\<close>, and the placeholder \<open>$\<close>
  followed by \<open>i + 1\<close> in decimal, with no blank around \<open>=\<close>; beside them the values
  of the fields in the same order. The storage name is what
  \<open>jsToSql[colName] || colName\<close> gives; for a field whose name is not the name of a
  property inherited from \<open>Object.prototype\<close> it is the alias, when the alias mapping has
  a non-empty one for the field, and the field's own name otherwise. For the empty field
  mapping the helper fails with \<open>BadRequestError\<close>.
\<close>

theorem sqlForPartialUpdate_fragments:
  "sqlForPartialUpdate [] jsToSql = Inl (BadRequestError ''No data'') \<and>
   (dataToUpdate \<noteq> [] \<longrightarrow>
      (\<exists>cols. sqlForPartialUpdate dataToUpdate jsToSql =
                Inr \<lparr>setCols = join '', '' cols, values' = map snd dataToUpdate\<rparr> \<and>
              length cols = length dataToUpdate \<and>
              (\<forall>i < length dataToUpdate.
                 cols ! i = [dquote] @ storage_name jsToSql (fst (dataToUpdate ! i)) @
                            [dquote] @ ''=$'' @ show_nat (i + 1) \<and>
                 (Object_prototype (fst (dataToUpdate ! i)) = Undefined \<longrightarrow>
                    storage_name jsToSql (fst (dataToUpdate ! i)) =
                      alias_or_name jsToSql (fst (dataToUpdate ! i))))))"
proof (intro conjI impI)
  show "sqlForPartialUpdate [] jsToSql = Inl (BadRequestError ''No data'')"
    by (rule sqlForPartialUpdate_empty)
next
  assume ne: "dataToUpdate \<noteq> []"
  let ?cols = "map (\<lambda>(colName, idx). assignment jsToSql colName idx)
                 (zip (map fst dataToUpdate) [0 ..< length dataToUpdate])"
  have "sqlForPartialUpdate dataToUpdate jsToSql =
          Inr \<lparr>setCols = join '', '' ?cols, values' = map snd dataToUpdate\<rparr>"
    using ne by (rule sqlForPartialUpdate_nonempty)
  moreover have "length ?cols = length dataToUpdate"
    by simp
  moreover have "\<forall>i < length dataToUpdate.
      ?cols ! i = [dquote] @ storage_name jsToSql (fst (dataToUpdate ! i)) @
                  [dquote] @ ''=$'' @ show_nat (i + 1) \<and>
      (Object_prototype (fst (dataToUpdate ! i)) = Undefined \<longrightarrow>
         storage_name jsToSql (fst (dataToUpdate ! i)) =
           alias_or_name jsToSql (fst (dataToUpdate ! i)))"
    by (simp add: assignment_def storage_name_alias_or_name)
  ultimately show "\<exists>cols. sqlForPartialUpdate dataToUpdate jsToSql =
                Inr \<lparr>setCols = join '', '' cols, values' = map snd dataToUpdate\<rparr> \<and>
              length cols = length dataToUpdate \<and>
              (\<forall>i < length dataToUpdate.
                 cols ! i = [dquote] @ storage_name jsToSql (fst (dataToUpdate ! i)) @
                            [dquote] @ ''=$'' @ show_nat (i + 1) \<and>
                 (Object_prototype (fst (dataToUpdate ! i)) = Undefined \<longrightarrow>
                    storage_name jsToSql (fst (dataToUpdate ! i)) =
                      alias_or_name jsToSql (fst (dataToUpdate ! i))))"
    by blast
qed

text \<open>
  The claim as stated writes the fragment with blanks around \<open>=\<close> and takes the storage
  name from the alias mapping alone. For the field \<open>test1\<close> the helper writes
  \<open>"test1"=$1\<close>, as its tests expect; and for a field named \<open>constructor\<close> with the
  empty alias mapping \<open>{}\<close> it writes the text of the inherited constructor where the
  claim has the field's own name.
\<close>

theorem sqlForPartialUpdate_not_as_claimed:
  \<open>sqlForPartialUpdate [(''test1'', IntV 1)] Map.empty =
     Inr \<lparr>setCols = ''"test1"=$1'', values' = [IntV 1]\<rparr> \<and>
   ''"test1"=$1'' \<noteq> ''"test1" = $1'' \<and>
   sqlForPartialUpdate [(''constructor'', IntV 1)] Map.empty =
     Inr \<lparr>setCols = ''"function Object() { [native code] }"=$1'', values' = [IntV 1]\<rparr> \<and>
   ''"function Object() { [native code] }"=$1'' \<noteq> ''"constructor"=$1''\<close>
  by (simp add: sqlForPartialUpdate_def assignment_def storage_name_def get_property_def
      Object_prototype_def truthy_def template_text_def show_nat.simps digit_char_def)

text \<open>
  The third test of \<open>sql.test.js\<close>, through the theorem.
\<close>

theorem sqlForPartialUpdate_fragments_witness:
  \<open>[(''test1'', IntV 1), (''test2'', IntV 2), (''firstname'', TextV ''Sam'')] \<noteq> [] \<and>
   Object_prototype ''test1'' = Undefined \<and> Object_prototype ''test2'' = Undefined \<and>
   Object_prototype ''firstname'' = Undefined \<and>
   (\<exists>cols. sqlForPartialUpdate
            [(''test1'', IntV 1), (''test2'', IntV 2), (''firstname'', TextV ''Sam'')]
            [''firstname'' \<mapsto> ''first_name''] =
          Inr \<lparr>setCols = join '', '' cols, values' = [IntV 1, IntV 2, TextV ''Sam'']\<rparr> \<and>
        cols = [''"test1"=$1'', ''"test2"=$2'', ''"first_name"=$3''] \<and>
        join '', '' cols = ''"test1"=$1, "test2"=$2, "first_name"=$3'')\<close>
proof -
  let ?D = "[(''test1'', IntV 1), (''test2'', IntV 2), (''firstname'', TextV ''Sam'')]"
  let ?A = "[''firstname'' \<mapsto> ''first_name'']"
  have p: "Object_prototype ''test1'' = Undefined" "Object_prototype ''test2'' = Undefined"
    "Object_prototype ''firstname'' = Undefined"
    by (simp_all add: Object_prototype_def)
  from sqlForPartialUpdate_fragments[of ?A ?D] obtain cols where
    r: "sqlForPartialUpdate ?D ?A = Inr \<lparr>setCols = join '', '' cols, values' = map snd ?D\<rparr>"
    and l: "length cols = 3"
    and n: "\<forall>i<3. cols ! i =
              [dquote] @ storage_name ?A (fst (?D ! i)) @ [dquote] @ ''=$'' @ show_nat (i + 1) \<and>
              (Object_prototype (fst (?D ! i)) = Undefined \<longrightarrow>
                 storage_name ?A (fst (?D ! i)) = alias_or_name ?A (fst (?D ! i)))"
    by auto
  have i: "(0::nat) < 3" "(1::nat) < 3" "(2::nat) < 3"
    by simp_all
  from n[rule_format, OF i(1)] p(1) have c0: "cols ! 0 = [dquote] @ ''test1'' @ [dquote] @ ''=$1''"
    by (simp add: alias_or_name_def digit_char_def show_nat.simps)
  from n[rule_format, OF i(2)] p(2) have c1: "cols ! 1 = [dquote] @ ''test2'' @ [dquote] @ ''=$2''"
    by (simp add: alias_or_name_def digit_char_def show_nat.simps)
  from n[rule_format, OF i(3)] p(3) have c2: "cols ! 2 = [dquote] @ ''first_name'' @ [dquote] @ ''=$3''"
    by (simp add: alias_or_name_def digit_char_def show_nat.simps)
  from l obtain a b c where "cols = [a, b, c]"
    by (auto simp: numeral_3_eq_3 length_Suc_conv)
  with c0 c1 c2 have \<open>cols = [''"test1"=$1'', ''"test2"=$2'', ''"first_name"=$3'']\<close>
    by simp
  with r p show ?thesis by simp
qed

subsection \<open>findFiltered and the conjunction of filters\<close>

text \<open>
  Claim C3 says that two filter keys together return the intersection of what each
  returns alone. The code does otherwise at these inputs. On any store,
  \<open>Job.findFiltered\<close> with \<open>hasEquity: false\<close> alone builds no clause and is refused by
  the store (the empty \<open>WHERE\<close> of claim C1), while together with \<open>title: "j"\<close> it
  returns rows, so there is no result of the key alone to intersect with. And since the
  filter text is pasted into the statement, the name \<open>' OR name ILIKE '\<close> with
  \<open>minEmployees: 3\<close> asks for
  \<open>name ILIKE '%' OR name ILIKE '%' AND num_employees >= 3\<close>, which selects all three
  companies of the example store, though \<open>minEmployees: 3\<close> alone selects only one.
\<close>

theorem findFiltered_not_intersection:
  "Job_findFiltered d \<lparr>jf_title = None, jf_minSalary = None, jf_hasEquity = Some False\<rparr> =
     (Inl syntax_error_at_ORDER, d) \<and>
   fst (Job_findFiltered test_db \<lparr>jf_title = Some ''j'', jf_minSalary = None, jf_hasEquity = Some False\<rparr>) =
     Inr (map job_cols (jobs test_db)) \<and>
   fst (Company_findFiltered test_db
          \<lparr>cf_name = Some (apos # '' OR name ILIKE '' @ [apos]), cf_minEmployees = Some 3,
           cf_maxEmployees = None\<rparr>) =
     Inr (map company_cols (companies test_db)) \<and>
   fst (Company_findFiltered test_db
          \<lparr>cf_name = None, cf_minEmployees = Some 3, cf_maxEmployees = None\<rparr>) =
     Inr [[(''handle'', TextV ''c3''), (''name'', TextV ''C3''), (''description'', TextV ''Desc3''),
           (''numEmployees'', IntV 3), (''logoUrl'', TextV ''http://c3.img'')]]"
proof -
  have 1: "Job_findFiltered d \<lparr>jf_title = None, jf_minSalary = None, jf_hasEquity = Some False\<rparr> =
     (Inl syntax_error_at_ORDER, d)"
    by (simp add: Job_findFiltered_def push_if_def query_def select_where_def where_pred_empty)
  have 2: "fst (Job_findFiltered test_db \<lparr>jf_title = Some ''j'', jf_minSalary = None, jf_hasEquity = Some False\<rparr>) =
     Inr (map job_cols (jobs test_db))"
    by code_simp
  have 3: "fst (Company_findFiltered test_db
          \<lparr>cf_name = Some (apos # '' OR name ILIKE '' @ [apos]), cf_minEmployees = Some 3,
           cf_maxEmployees = None\<rparr>) =
     Inr (map company_cols (companies test_db))"
    by code_simp
  have 4: "fst (Company_findFiltered test_db
          \<lparr>cf_name = None, cf_minEmployees = Some 3, cf_maxEmployees = None\<rparr>) =
     Inr [[(''handle'', TextV ''c3''), (''name'', TextV ''C3''), (''description'', TextV ''Desc3''),
           (''numEmployees'', IntV 3), (''logoUrl'', TextV ''http://c3.img'')]]"
    by code_simp
  from 1 2 3 4 show ?thesis by (intro conjI)
qed

subsection \<open>Company.create and a handle that exists\<close>

text \<open>
  Claim C4, amended. \<open>Company.create\<close> fails with \<open>BadRequestError\<close>, message
  \<open>Duplicate company:\<close> and the handle, whenever the handle already exists in the
  companies table, and leaves the store as it was; when the handle does not exist, it
  inserts the company at the end of the table and returns the full inserted record
  (handle, name, description, numEmployees, logoUrl).
\<close>

theorem Company_create_duplicate_or_insert:
  "(handle \<in> set (map c_handle (companies d)) \<longrightarrow>
      Company_create d handle name description numEmployees logoUrl =
        (Inl (BadRequestError (''Duplicate company: '' @ handle)), d)) \<and>
   (handle \<notin> set (map c_handle (companies d)) \<longrightarrow>
      Company_create d handle name description numEmployees logoUrl =
        (Inr (Some [(''handle'', TextV handle), (''name'', TextV name),
                    (''description'', TextV description),
                    (''numEmployees'', int_val numEmployees),
                    (''logoUrl'', text_val logoUrl)]),
         d\<lparr>companies := companies d @
              [\<lparr>c_handle = handle, c_name = name, c_description = description,
                c_num_employees = numEmployees, c_logo_url = logoUrl\<rparr>]\<rparr>))"
proof (intro conjI impI)
  assume ex: "handle \<in> set (map c_handle (companies d))"
  then have "filter (has_handle handle) (companies d) \<noteq> []"
    by (simp add: has_handle_filter_empty)
  then show "Company_create d handle name description numEmployees logoUrl =
        (Inl (BadRequestError (''Duplicate company: '' @ handle)), d)"
    by (simp add: Company_create_def query_Select_company_handle first_row_def
          split: list.splits)
next
  assume nex: "handle \<notin> set (map c_handle (companies d))"
  then have "filter (has_handle handle) (companies d) = []"
    by (simp add: has_handle_filter_empty)
  moreover have "\<not> list_ex (has_handle handle) (companies d)"
    using nex by (simp add: list_ex_has_handle)
  ultimately show "Company_create d handle name description numEmployees logoUrl =
        (Inr (Some [(''handle'', TextV handle), (''name'', TextV name),
                    (''description'', TextV description),
                    (''numEmployees'', int_val numEmployees),
                    (''logoUrl'', text_val logoUrl)]),
         d\<lparr>companies := companies d @
              [\<lparr>c_handle = handle, c_name = name, c_description = description,
                c_num_employees = numEmployees, c_logo_url = logoUrl\<rparr>]\<rparr>)"
    by (simp add: Company_create_def query_Select_company_handle query_Insert_company
          insert_company_def first_row_def company_cols_def)
qed

text \<open>
  The claim as stated asks for \<open>DuplicateError\<close>. On the example store, creating a
  company with the handle \<open>c1\<close>, which exists, fails with a \<open>BadRequestError\<close> that is
  not a \<open>DuplicateError\<close>.
\<close>

theorem Company_create_not_DuplicateError:
  "''c1'' \<in> set (map c_handle (companies test_db)) \<and>
   Company_create test_db ''c1'' ''C1'' ''Desc1'' (Some 1) (Some ''http://c1.img'') =
     (Inl (BadRequestError ''Duplicate company: c1''), test_db) \<and>
   \<not> failed_with is_DuplicateError
       (fst (Company_create test_db ''c1'' ''C1'' ''Desc1'' (Some 1) (Some ''http://c1.img'')))"
proof -
  have h: "''c1'' \<in> set (map c_handle (companies test_db))"
    by (simp add: test_db_def)
  have "Company_create test_db ''c1'' ''C1'' ''Desc1'' (Some 1) (Some ''http://c1.img'') =
     (Inl (BadRequestError ''Duplicate company: c1''), test_db)"
    by (simp add: Company_create_def query_Select_company_handle first_row_def test_db_def has_handle_def)
  with h show ?thesis
    by (simp add: failed_with_def is_DuplicateError_def)
qed

text \<open>
  Both cases of the theorem on the example store.
\<close>

theorem Company_create_witness:
  "''c1'' \<in> set (map c_handle (companies test_db)) \<and>
   Company_create test_db ''c1'' ''C1'' ''Desc1'' (Some 1) (Some ''http://c1.img'') =
     (Inl (BadRequestError ''Duplicate company: c1''), test_db) \<and>
   ''new'' \<notin> set (map c_handle (companies test_db)) \<and>
   fst (Company_create test_db ''new'' ''New'' ''New Description'' (Some 1) None) =
     Inr (Some [(''handle'', TextV ''new''), (''name'', TextV ''New''),
                (''description'', TextV ''New Description''), (''numEmployees'', IntV 1),
                (''logoUrl'', Null)]) \<and>
   map c_handle (companies (snd (Company_create test_db ''new'' ''New'' ''New Description'' (Some 1) None))) =
     [''c1'', ''c2'', ''c3'', ''new'']"
proof -
  have h: "''c1'' \<in> set (map c_handle (companies test_db))"
    and n: "''new'' \<notin> set (map c_handle (companies test_db))"
    by (simp_all add: test_db_def)
  from h Company_create_duplicate_or_insert[of "''c1''" test_db "''C1''" "''Desc1''" "Some 1" "Some ''http://c1.img''"]
  have 1: "Company_create test_db ''c1'' ''C1'' ''Desc1'' (Some 1) (Some ''http://c1.img'') =
     (Inl (BadRequestError ''Duplicate company: c1''), test_db)" by simp
  from n Company_create_duplicate_or_insert[of "''new''" test_db "''New''" "''New Description''" "Some 1" None]
  have 2: "Company_create test_db ''new'' ''New'' ''New Description'' (Some 1) None =
      (Inr (Some [(''handle'', TextV ''new''), (''name'', TextV ''New''),
                (''description'', TextV ''New Description''), (''numEmployees'', IntV 1),
                (''logoUrl'', Null)]),
       test_db\<lparr>companies := companies test_db @
              [\<lparr>c_handle = ''new'', c_name = ''New'', c_description = ''New Description'',
                c_num_employees = Some 1, c_logo_url = None\<rparr>]\<rparr>)"
    by (simp add: int_val_def text_val_def)
  have 3: "fst (Company_create test_db ''new'' ''New'' ''New Description'' (Some 1) None) =
     Inr (Some [(''handle'', TextV ''new''), (''name'', TextV ''New''),
                (''description'', TextV ''New Description''), (''numEmployees'', IntV 1),
                (''logoUrl'', Null)])"
    by (simp add: 2)
  have 4: "map c_handle (companies (snd (Company_create test_db ''new'' ''New'' ''New Description'' (Some 1) None))) =
     [''c1'', ''c2'', ''c3'', ''new'']"
    by (simp add: 2) (simp add: test_db_def)
  from h 1 n 3 4 show ?thesis by (intro conjI)
qed

subsection \<open>Job.create and the company it names\<close>

text \<open>
  Claim C5. \<open>Job.create\<close> fails with \<open>BadRequestError\<close> whenever \<open>companyHandle\<close> is
  the handle of no stored company, and then the store (its jobs table with it) is
  unchanged; when the company exists, it inserts the job and returns the created record,
  whose \<open>id\<close> is the one the store assigned, an id no job had before.
\<close>

theorem Job_create_checks_company:
  "(companyHandle \<notin> set (map c_handle (companies d)) \<longrightarrow>
      Job_create d title salary equity companyHandle =
        (Inl (BadRequestError (''No company with '' @ companyHandle)), d)) \<and>
   (companyHandle \<in> set (map c_handle (companies d)) \<longrightarrow>
      Job_create d title salary equity companyHandle =
        (Inr (Some [(''id'', IntV (next_id (jobs d))), (''title'', TextV title),
                    (''salary'', int_val salary), (''equity'', num_val equity),
                    (''companyHandle'', TextV companyHandle)]),
         d\<lparr>jobs := jobs d @
              [\<lparr>j_id = next_id (jobs d), j_title = title, j_salary = salary,
                j_equity = equity, j_company_handle = companyHandle\<rparr>]\<rparr>) \<and>
      next_id (jobs d) \<notin> set (map j_id (jobs d)))"
proof (intro conjI impI)
  assume "companyHandle \<notin> set (map c_handle (companies d))"
  then have "filter (has_handle companyHandle) (companies d) = []"
    by (simp add: has_handle_filter_empty)
  then show "Job_create d title salary equity companyHandle =
        (Inl (BadRequestError (''No company with '' @ companyHandle)), d)"
    by (simp add: Job_create_def query_Select_company_handle)
next
  assume ex: "companyHandle \<in> set (map c_handle (companies d))"
  then have "filter (has_handle companyHandle) (companies d) \<noteq> []"
    by (simp add: has_handle_filter_empty)
  moreover have "list_ex (has_handle companyHandle) (companies d)"
    using ex by (simp add: list_ex_has_handle)
  ultimately show "Job_create d title salary equity companyHandle =
        (Inr (Some [(''id'', IntV (next_id (jobs d))), (''title'', TextV title),
                    (''salary'', int_val salary), (''equity'', num_val equity),
                    (''companyHandle'', TextV companyHandle)]),
         d\<lparr>jobs := jobs d @
              [\<lparr>j_id = next_id (jobs d), j_title = title, j_salary = salary,
                j_equity = equity, j_company_handle = companyHandle\<rparr>]\<rparr>)"
    by (simp add: Job_create_def query_Select_company_handle query_Insert_job insert_job_def
          first_row_def job_cols_def)
next
  show "next_id (jobs d) \<notin> set (map j_id (jobs d))"
    by (rule next_id_fresh)
qed

text \<open>
  Both cases of the theorem on the example store (the two \<open>create\<close> tests of
  \<open>job.test.js\<close>).
\<close>

theorem Job_create_checks_company_witness:
  "''bad'' \<notin> set (map c_handle (companies test_db)) \<and>
   Job_create test_db ''new'' (Some 5) (Some (3 / 5)) ''bad'' =
     (Inl (BadRequestError ''No company with bad''), test_db) \<and>
   ''c1'' \<in> set (map c_handle (companies test_db)) \<and>
   fst (Job_create test_db ''new'' (Some 5) (Some (3 / 5)) ''c1'') =
     Inr (Some [(''id'', IntV 1000), (''title'', TextV ''new''), (''salary'', IntV 5),
                (''equity'', NumV (3 / 5)), (''companyHandle'', TextV ''c1'')]) \<and>
   map j_id (jobs (snd (Job_create test_db ''new'' (Some 5) (Some (3 / 5)) ''c1''))) =
     [1, 2, 999, 1000]"
proof -
  have b: "''bad'' \<notin> set (map c_handle (companies test_db))"
    and c: "''c1'' \<in> set (map c_handle (companies test_db))"
    by (simp_all add: test_db_def)
  have n: "next_id (jobs test_db) = 1000"
    by (simp add: next_id_def test_db_def)
  from b Job_create_checks_company[of "''bad''" test_db "''new''" "Some 5" "Some (3 / 5)"]
  have 1: "Job_create test_db ''new'' (Some 5) (Some (3 / 5)) ''bad'' =
     (Inl (BadRequestError ''No company with bad''), test_db)" by simp
  from c Job_create_checks_company[of "''c1''" test_db "''new''" "Some 5" "Some (3 / 5)"]
  have 2: "Job_create test_db ''new'' (Some 5) (Some (3 / 5)) ''c1'' =
     (Inr (Some [(''id'', IntV 1000), (''title'', TextV ''new''), (''salary'', IntV 5),
                (''equity'', NumV (3 / 5)), (''companyHandle'', TextV ''c1'')]),
      test_db\<lparr>jobs := jobs test_db @
              [\<lparr>j_id = 1000, j_title = ''new'', j_salary = Some 5,
                j_equity = Some (3 / 5), j_company_handle = ''c1''\<rparr>]\<rparr>)"
    by (simp add: n int_val_def num_val_def)
  have 3: "fst (Job_create test_db ''new'' (Some 5) (Some (3 / 5)) ''c1'') =
     Inr (Some [(''id'', IntV 1000), (''title'', TextV ''new''), (''salary'', IntV 5),
                (''equity'', NumV (3 / 5)), (''companyHandle'', TextV ''c1'')])"
    by (simp add: 2)
  have 4: "map j_id (jobs (snd (Job_create test_db ''new'' (Some 5) (Some (3 / 5)) ''c1''))) =
     [1, 2, 999, 1000]"
    by (simp add: 2) (simp add: test_db_def)
  from b 1 c 3 4 show ?thesis by (intro conjI)
qed

subsection \<open>The hasEquity key\<close>

text \<open>
  Claim C6 has two halves. The second holds for every store and filter: with
  \<open>hasEquity: false\<close> the code pushes no clause, so the call is the call without the
  key. The first half says that with \<open>hasEquity: true\<close> only jobs with \<open>equity > 0\<close>
  are returned. The code does otherwise at the input of the theorem: the title
  \<open>' OR title ILIKE '\<close> is pasted into the statement, which then asks for
  \<open>title ILIKE '%' OR title ILIKE '%' AND equity > 0\<close>; \<open>AND\<close> binds tighter than
  \<open>OR\<close>, and the job \<open>j3\<close> of the example store, whose equity is 0, is returned.
\<close>

theorem hasEquity_true_not_restricting:
  "Job_findFiltered d (f\<lparr>jf_hasEquity := Some False\<rparr>) =
     Job_findFiltered d (f\<lparr>jf_hasEquity := None\<rparr>) \<and>
   fst (Job_findFiltered test_db
          \<lparr>jf_title = Some (apos # '' OR title ILIKE '' @ [apos]), jf_minSalary = None,
           jf_hasEquity = Some True\<rparr>) =
     Inr [[(''id'', IntV 1), (''title'', TextV ''j3''), (''salary'', IntV 3),
           (''equity'', NumV 0), (''companyHandle'', TextV ''c1'')],
          [(''id'', IntV 2), (''title'', TextV ''j2''), (''salary'', IntV 5),
           (''equity'', NumV (1 / 10)), (''companyHandle'', TextV ''c1'')],
          [(''id'', IntV 999), (''title'', TextV ''j1''), (''salary'', IntV 5),
           (''equity'', NumV (1 / 10)), (''companyHandle'', TextV ''c1'')]]"
proof -
  have 1: "Job_findFiltered d (f\<lparr>jf_hasEquity := Some False\<rparr>) =
     Job_findFiltered d (f\<lparr>jf_hasEquity := None\<rparr>)"
    by (simp add: Job_findFiltered_def)
  have 2: "fst (Job_findFiltered test_db
          \<lparr>jf_title = Some (apos # '' OR title ILIKE '' @ [apos]), jf_minSalary = None,
           jf_hasEquity = Some True\<rparr>) =
     Inr [[(''id'', IntV 1), (''title'', TextV ''j3''), (''salary'', IntV 3),
           (''equity'', NumV 0), (''companyHandle'', TextV ''c1'')],
          [(''id'', IntV 2), (''title'', TextV ''j2''), (''salary'', IntV 5),
           (''equity'', NumV (1 / 10)), (''companyHandle'', TextV ''c1'')],
          [(''id'', IntV 999), (''title'', TextV ''j1''), (''salary'', IntV 5),
           (''equity'', NumV (1 / 10)), (''companyHandle'', TextV ''c1'')]]"
    by code_simp
  from 1 2 show ?thesis by (intro conjI)
qed

subsection \<open>Company.get\<close>

text \<open>
  Claim C7. \<open>Company.get\<close> fails with \<open>NotFoundError\<close> when no company has the handle.
  Otherwise, the handles of the companies table being distinct (its primary key), it
  returns the five fields of the company with that handle together with the list of all
  jobs whose company handle is that handle, each with its five fields; when the company
  has no jobs that list is the empty list.
\<close>

theorem Company_get_company_and_jobs:
  "(h \<notin> set (map c_handle (companies d)) \<longrightarrow>
      Company_get d h = (Inl (NotFoundError (''No company: '' @ h)), d)) \<and>
   (distinct (map c_handle (companies d)) \<and> c \<in> set (companies d) \<and> c_handle c = h \<longrightarrow>
      Company_get d h =
        (Inr (company_cols c, map job_cols (filter (\<lambda>j. j_company_handle j = h) (jobs d))), d) \<and>
      (filter (\<lambda>j. j_company_handle j = h) (jobs d) = [] \<longrightarrow>
         Company_get d h = (Inr (company_cols c, []), d)))"
  using Company_get_absent[of h d] Company_get_present[of d c h]
  by (auto simp: of_company_def[abs_def])

text \<open>
  The three cases on the example store: no such company, a company without jobs, a
  company with three jobs.
\<close>

theorem Company_get_company_and_jobs_witness:
  "''nope'' \<notin> set (map c_handle (companies test_db)) \<and>
   Company_get test_db ''nope'' = (Inl (NotFoundError ''No company: nope''), test_db) \<and>
   distinct (map c_handle (companies test_db)) \<and>
   Company_get test_db ''c2'' =
     (Inr ([(''handle'', TextV ''c2''), (''name'', TextV ''C2''), (''description'', TextV ''Desc2''),
            (''numEmployees'', IntV 2), (''logoUrl'', TextV ''http://c2.img'')], []), test_db) \<and>
   Company_get test_db ''c1'' =
     (Inr ([(''handle'', TextV ''c1''), (''name'', TextV ''C1''), (''description'', TextV ''Desc1''),
            (''numEmployees'', IntV 1), (''logoUrl'', TextV ''http://c1.img'')],
           [[(''id'', IntV 1), (''title'', TextV ''j3''), (''salary'', IntV 3),
             (''equity'', NumV 0), (''companyHandle'', TextV ''c1'')],
            [(''id'', IntV 2), (''title'', TextV ''j2''), (''salary'', IntV 5),
             (''equity'', NumV (1 / 10)), (''companyHandle'', TextV ''c1'')],
            [(''id'', IntV 999), (''title'', TextV ''j1''), (''salary'', IntV 5),
             (''equity'', NumV (1 / 10)), (''companyHandle'', TextV ''c1'')]]), test_db)"
proof -
  let ?c1 = "\<lparr>c_handle = ''c1'', c_name = ''C1'', c_description = ''Desc1'',
          c_num_employees = Some 1, c_logo_url = Some ''http://c1.img''\<rparr>"
  let ?c2 = "\<lparr>c_handle = ''c2'', c_name = ''C2'', c_description = ''Desc2'',
          c_num_employees = Some 2, c_logo_url = Some ''http://c2.img''\<rparr>"
  have n: "''nope'' \<notin> set (map c_handle (companies test_db))"
    and d: "distinct (map c_handle (companies test_db))"
    and m1: "?c1 \<in> set (companies test_db)" and m2: "?c2 \<in> set (companies test_db)"
    by (simp_all add: test_db_def)
  have 0: "Company_get test_db ''nope'' = (Inl (NotFoundError ''No company: nope''), test_db)"
    using Company_get_company_and_jobs[of "''nope''" test_db] n by simp
  have 2: "Company_get test_db ''c2'' =
     (Inr ([(''handle'', TextV ''c2''), (''name'', TextV ''C2''), (''description'', TextV ''Desc2''),
            (''numEmployees'', IntV 2), (''logoUrl'', TextV ''http://c2.img'')], []), test_db)"
    using Company_get_company_and_jobs[of "''c2''" test_db ?c2] d m2
    by (simp add: company_cols_def int_val_def text_val_def) (simp add: test_db_def)
  have 1: "Company_get test_db ''c1'' =
     (Inr ([(''handle'', TextV ''c1''), (''name'', TextV ''C1''), (''description'', TextV ''Desc1''),
            (''numEmployees'', IntV 1), (''logoUrl'', TextV ''http://c1.img'')],
           [[(''id'', IntV 1), (''title'', TextV ''j3''), (''salary'', IntV 3),
             (''equity'', NumV 0), (''companyHandle'', TextV ''c1'')],
            [(''id'', IntV 2), (''title'', TextV ''j2''), (''salary'', IntV 5),
             (''equity'', NumV (1 / 10)), (''companyHandle'', TextV ''c1'')],
            [(''id'', IntV 999), (''title'', TextV ''j1''), (''salary'', IntV 5),
             (''equity'', NumV (1 / 10)), (''companyHandle'', TextV ''c1'')]]), test_db)"
    using Company_get_company_and_jobs[of "''c1''" test_db ?c1] d m1
    by (simp add: company_cols_def int_val_def text_val_def)
       (simp add: test_db_def job_cols_def int_val_def num_val_def)
  from n 0 d 2 1 show ?thesis by (intro conjI)
qed

subsection \<open>What update leaves alone\<close>

text \<open>
  Claim C8. When the keys of \<open>partialData\<close> are drawn from the updatable fields,
  \<open>update\<close> changes nothing but the table of its manager, and there it relates every
  row to the row in its place afterwards by \<open>company_frame\<close> (or \<open>job_frame\<close>): the
  identifier is unchanged, every record with another identifier is unchanged, and every
  field of the target record whose key is omitted from \<open>partialData\<close> keeps its
  value. (This holds whether or not the record exists and the update succeeds.)
\<close>

theorem update_changes_only_named_fields:
  assumes "set (map fst cdata) \<subseteq> {''name'', ''description'', ''numEmployees'', ''logoUrl''}"
    and "set (map fst jdata) \<subseteq> {''title'', ''salary'', ''equity''}"
  shows "(\<exists>cs. snd (Company_update d h cdata) = d\<lparr>companies := cs\<rparr> \<and>
               list_all2 (company_frame h (map fst cdata)) (companies d) cs) \<and>
         (\<exists>js. snd (Job_update d i jdata) = d\<lparr>jobs := js\<rparr> \<and>
               list_all2 (job_frame i (map fst jdata)) (jobs d) js)"
  using Company_update_frame[OF assms(1)] Job_update_frame[OF assms(2)] by simp

text \<open>
  Two updates of the example store that do change the named fields: the name and the
  number of employees of \<open>c1\<close>, the title and the equity of job 999, whose salary stays.
\<close>

theorem update_changes_only_named_fields_witness:
  "set (map fst [(''name'', TextV ''New''), (''numEmployees'', Null)]) \<subseteq>
     {''name'', ''description'', ''numEmployees'', ''logoUrl''} \<and>
   set (map fst [(''title'', TextV ''updated''), (''equity'', Null)]) \<subseteq>
     {''title'', ''salary'', ''equity''} \<and>
   (\<exists>cs. snd (Company_update test_db ''c1'' [(''name'', TextV ''New''), (''numEmployees'', Null)]) =
           test_db\<lparr>companies := cs\<rparr> \<and>
         list_all2 (company_frame ''c1'' (map fst [(''name'', TextV ''New''), (''numEmployees'', Null)]))
           (companies test_db) cs) \<and>
   map c_name (companies
     (snd (Company_update test_db ''c1'' [(''name'', TextV ''New''), (''numEmployees'', Null)]))) =
     [''New'', ''C2'', ''C3''] \<and>
   (\<exists>js. snd (Job_update test_db 999 [(''title'', TextV ''updated''), (''equity'', Null)]) =
           test_db\<lparr>jobs := js\<rparr> \<and>
         list_all2 (job_frame 999 (map fst [(''title'', TextV ''updated''), (''equity'', Null)]))
           (jobs test_db) js) \<and>
   map j_title (jobs
     (snd (Job_update test_db 999 [(''title'', TextV ''updated''), (''equity'', Null)]))) =
     [''j3'', ''j2'', ''updated''] \<and>
   map j_salary (jobs
     (snd (Job_update test_db 999 [(''title'', TextV ''updated''), (''equity'', Null)]))) =
     [Some 3, Some 5, Some 5]"
proof -
  let ?cd = "[(''name'', TextV ''New''), (''numEmployees'', Null)]"
  let ?jd = "[(''title'', TextV ''updated''), (''equity'', Null)]"
  have ck: "set (map fst ?cd) \<subseteq> {''name'', ''description'', ''numEmployees'', ''logoUrl''}"
    and jk: "set (map fst ?jd) \<subseteq> {''title'', ''salary'', ''equity''}"
    by simp_all
  note t = update_changes_only_named_fields[OF ck jk, of test_db "''c1''" 999]
  from t have 1: "\<exists>cs. snd (Company_update test_db ''c1'' ?cd) = test_db\<lparr>companies := cs\<rparr> \<and>
         list_all2 (company_frame ''c1'' (map fst ?cd)) (companies test_db) cs"
    by (rule conjunct1)
  from t have 2: "\<exists>js. snd (Job_update test_db 999 ?jd) = test_db\<lparr>jobs := js\<rparr> \<and>
         list_all2 (job_frame 999 (map fst ?jd)) (jobs test_db) js"
    by (rule conjunct2)
  have 3: "map c_name (companies (snd (Company_update test_db ''c1'' ?cd))) = [''New'', ''C2'', ''C3'']"
    by code_simp
  have 4: "map j_title (jobs (snd (Job_update test_db 999 ?jd))) = [''j3'', ''j2'', ''updated'']"
    by code_simp
  have 5: "map j_salary (jobs (snd (Job_update test_db 999 ?jd))) = [Some 3, Some 5, Some 5]"
    by code_simp
  from ck jk 1 3 2 4 5 show ?thesis by (intro conjI)
qed

subsection \<open>An identifier that matches nothing\<close>

text \<open>
  Claim C9, amended. Let the identifier match no stored record. Then \<open>get\<close> and
  \<open>remove\<close> fail with \<open>NotFoundError\<close>; \<open>update\<close> always fails: with
  \<open>BadRequestError\<close> when \<open>partialData\<close> is empty, and with \<open>NotFoundError\<close> when
  \<open>partialData\<close> is not empty, its keys are distinct and among the updatable fields,
  and its values are of the fields' types. In each of these cases the store after the
  call is the store before it.
\<close>

theorem absent_identifier_fails:
  assumes "h \<notin> set (map c_handle (companies d))" and "i \<notin> set (map j_id (jobs d))"
  shows "Company_get d h = (Inl (NotFoundError (''No company: '' @ h)), d) \<and>
         Company_remove d h = (Inl (NotFoundError (''No company: '' @ h)), d) \<and>
         (\<exists>e. Company_update d h cdata = (Inl e, d)) \<and>
         Company_update d h [] = (Inl (BadRequestError ''No data''), d) \<and>
         (cdata \<noteq> [] \<and> distinct (map fst cdata) \<and> list_all company_field_ok cdata \<longrightarrow>
            Company_update d h cdata = (Inl (NotFoundError (''No company: '' @ h)), d)) \<and>
         Job_get d i = (Inl (NotFoundError (''No job: '' @ show_int i)), d) \<and>
         Job_remove d i = (Inl (NotFoundError (''No job: '' @ show_int i)), d) \<and>
         (\<exists>e. Job_update d i jdata = (Inl e, d)) \<and>
         Job_update d i [] = (Inl (BadRequestError ''No data''), d) \<and>
         (jdata \<noteq> [] \<and> distinct (map fst jdata) \<and> list_all job_field_ok jdata \<longrightarrow>
            Job_update d i jdata = (Inl (NotFoundError (''No job: '' @ show_int i)), d))"
  using Company_get_absent[OF assms(1)] Company_remove_absent[OF assms(1)]
    Company_update_absent[OF assms(1), of cdata] Company_update_empty[of d h]
    Company_update_absent_well_formed[OF assms(1), of cdata]
    Job_get_absent[OF assms(2)] Job_remove_absent[OF assms(2)]
    Job_update_absent[OF assms(2), of jdata] Job_update_empty[of d i]
    Job_update_absent_well_formed[OF assms(2), of jdata]
  by (intro conjI impI) simp_all

text \<open>
  The claim as stated asks for \<open>NotFoundError\<close> from every \<open>update\<close> of an absent
  record. No job of the example store has the id 42, and \<open>Job.update(42, {})\<close> fails
  with \<open>BadRequestError\<close>: the helper rejects the empty mapping before any statement
  is sent.
\<close>

theorem update_absent_empty_not_NotFoundError:
  "42 \<notin> set (map j_id (jobs test_db)) \<and>
   Job_update test_db 42 [] = (Inl (BadRequestError ''No data''), test_db) \<and>
   \<not> failed_with is_NotFoundError (fst (Job_update test_db 42 []))"
  by (simp add: Job_update_empty failed_with_def is_NotFoundError_def) (simp add: test_db_def)

text \<open>
  The theorem on the example store, for a handle and an id that are not stored.
\<close>

theorem absent_identifier_fails_witness:
  "''nope'' \<notin> set (map c_handle (companies test_db)) \<and>
   0 \<notin> set (map j_id (jobs test_db)) \<and>
   Company_get test_db ''nope'' = (Inl (NotFoundError ''No company: nope''), test_db) \<and>
   Company_remove test_db ''nope'' = (Inl (NotFoundError ''No company: nope''), test_db) \<and>
   Company_update test_db ''nope'' [(''name'', TextV ''New'')] =
     (Inl (NotFoundError ''No company: nope''), test_db) \<and>
   Job_get test_db 0 = (Inl (NotFoundError ''No job: 0''), test_db) \<and>
   Job_remove test_db 0 = (Inl (NotFoundError ''No job: 0''), test_db) \<and>
   Job_update test_db 0 [(''title'', TextV ''updated''), (''salary'', IntV 15), (''equity'', Null)] =
     (Inl (NotFoundError ''No job: 0''), test_db)"
proof -
  have h: "''nope'' \<notin> set (map c_handle (companies test_db))"
    and i: "0 \<notin> set (map j_id (jobs test_db))"
    by (simp_all add: test_db_def)
  have c: "list_all company_field_ok [(''name'', TextV ''New'')]"
    by (simp add: company_field_ok_def is_text_def)
  have j: "list_all job_field_ok [(''title'', TextV ''updated''), (''salary'', IntV 15), (''equity'', Null)]"
    by (simp add: job_field_ok_def is_text_def is_int_def is_num_def)
  have s: "show_int 0 = ''0''"
    by (simp add: show_int_def show_nat.simps digit_char_def)
  from absent_identifier_fails[OF h i, of "[(''name'', TextV ''New'')]"
      "[(''title'', TextV ''updated''), (''salary'', IntV 15), (''equity'', Null)]"] c j s h i
  show ?thesis by simp
qed

subsection \<open>The record that update returns\<close>

text \<open>
  Claim C10, amended. Let the keys of \<open>partialData\<close> be among the updatable fields and
  let \<open>update\<close> succeed. Then the value it returns is the full record of a row \<open>c\<close>
  stored after the update: its five fields, the identifier, which is the one given, and
  the fields omitted from \<open>partialData\<close> among them. \<open>Job.get\<close> of the same id on the
  store after the update returns exactly that record. \<open>Company.get\<close> of the same handle
  returns these same five fields and values and beside them the property \<open>jobs\<close>,
  which \<open>update\<close> does not return: the jobs of the company, when the handles of the
  table before the update are distinct (its primary key).
\<close>

theorem update_returns_stored_record:
  assumes ck: "set (map fst cdata) \<subseteq> {''name'', ''description'', ''numEmployees'', ''logoUrl''}"
    and jk: "set (map fst jdata) \<subseteq> {''title'', ''salary'', ''equity''}"
  shows "(Company_update d h cdata = (Inr r, d') \<longrightarrow>
            (\<exists>c. c \<in> set (companies d') \<and> c_handle c = h \<and> r = company_cols c \<and>
                 (\<exists>js. Company_get d' h = (Inr (r, js), d')) \<and>
                 (distinct (map c_handle (companies d)) \<longrightarrow>
                    Company_get d' h =
                      (Inr (r, map job_cols (filter (\<lambda>j. j_company_handle j = h) (jobs d'))), d')))) \<and>
         (Job_update e i jdata = (Inr q, e') \<longrightarrow>
            (\<exists>j. j \<in> set (jobs e') \<and> j_id j = i \<and> q = job_cols j \<and>
                 Job_get e' i = (Inr q, e')))"
proof (intro conjI impI)
  assume u: "Company_update d h cdata = (Inr r, d')"
  from Company_update_returns_stored[OF u] obtain c js where
    r: "r = company_cols c" and c: "c \<in> set (companies d')"
    and g: "Company_get d' (c_handle c) = (Inr (r, js), d')"
    and k: "set (map fst cdata) \<subseteq> {''name'', ''description'', ''numEmployees'', ''logoUrl''} \<longrightarrow>
              c_handle c = h"
    by (elim exE conjE)
  from k ck have h: "c_handle c = h" by (rule mp)
  from g h have g': "Company_get d' h = (Inr (r, js), d')" by simp
  have p: "Company_get d' h =
             (Inr (r, map job_cols (filter (\<lambda>j. j_company_handle j = h) (jobs d'))), d')"
    if dist: "distinct (map c_handle (companies d))"
  proof -
    from Company_update_keeps_handles[OF ck u] dist
    have "distinct (map c_handle (companies d'))" by simp
    from Company_get_present[OF this c h] show ?thesis
      by (simp add: r of_company_def[abs_def])
  qed
  show "\<exists>c. c \<in> set (companies d') \<and> c_handle c = h \<and> r = company_cols c \<and>
                 (\<exists>js. Company_get d' h = (Inr (r, js), d')) \<and>
                 (distinct (map c_handle (companies d)) \<longrightarrow>
                    Company_get d' h =
                      (Inr (r, map job_cols (filter (\<lambda>j. j_company_handle j = h) (jobs d'))), d'))"
  proof (intro exI[of _ c] conjI impI)
    show "c \<in> set (companies d')" by (rule c)
    show "c_handle c = h" by (rule h)
    show "r = company_cols c" by (rule r)
    show "\<exists>js. Company_get d' h = (Inr (r, js), d')" using g' by (rule exI)
    show "Company_get d' h =
            (Inr (r, map job_cols (filter (\<lambda>j. j_company_handle j = h) (jobs d'))), d')"
      if "distinct (map c_handle (companies d))"
      using that by (rule p)
  qed
next
  assume u: "Job_update e i jdata = (Inr q, e')"
  from Job_update_returns_stored[OF u] obtain j where
    q: "q = job_cols j" and j: "j \<in> set (jobs e')"
    and g: "Job_get e' (j_id j) = (Inr q, e')"
    and k: "set (map fst jdata) \<subseteq> {''title'', ''salary'', ''equity''} \<longrightarrow> j_id j = i"
    by (elim exE conjE)
  from k jk have i: "j_id j = i" by (rule mp)
  from g i have "Job_get e' i = (Inr q, e')" by simp
  with j i q show "\<exists>j. j \<in> set (jobs e') \<and> j_id j = i \<and> q = job_cols j \<and>
                 Job_get e' i = (Inr q, e')"
    by (intro exI[of _ j] conjI)
qed

text \<open>
  The claim as stated speaks of every successful update and of a value equal to that of
  \<open>get\<close>. The managers do not refuse the keys \<open>handle\<close> and \<open>id\<close>: on the example
  store \<open>Company.update("c2", {handle: "zz"})\<close> succeeds and \<open>Company.get("c2")\<close>
  then fails with \<open>NotFoundError\<close>, and likewise \<open>Job.update(2, {id: 5})\<close> and
  \<open>Job.get(2)\<close>. And after \<open>Company.update("c1", {name: "New"})\<close> the value of
  \<open>Company.get("c1")\<close> is the record that \<open>update\<close> returned together with three
  jobs under \<open>jobs\<close>.
\<close>

theorem update_value_not_get_value:
  "fst (Company_update test_db ''c2'' [(''handle'', TextV ''zz'')]) =
     Inr [(''handle'', TextV ''zz''), (''name'', TextV ''C2''), (''description'', TextV ''Desc2''),
          (''numEmployees'', IntV 2), (''logoUrl'', TextV ''http://c2.img'')] \<and>
   fst (Company_get (snd (Company_update test_db ''c2'' [(''handle'', TextV ''zz'')])) ''c2'') =
     Inl (NotFoundError ''No company: c2'') \<and>
   fst (Job_update test_db 2 [(''id'', IntV 5)]) =
     Inr [(''id'', IntV 5), (''title'', TextV ''j2''), (''salary'', IntV 5),
          (''equity'', NumV (1 / 10)), (''companyHandle'', TextV ''c1'')] \<and>
   fst (Job_get (snd (Job_update test_db 2 [(''id'', IntV 5)])) 2) =
     Inl (NotFoundError ''No job: 2'') \<and>
   fst (Company_update test_db ''c1'' [(''name'', TextV ''New'')]) =
     Inr [(''handle'', TextV ''c1''), (''name'', TextV ''New''), (''description'', TextV ''Desc1''),
          (''numEmployees'', IntV 1), (''logoUrl'', TextV ''http://c1.img'')] \<and>
   fst (Company_get (snd (Company_update test_db ''c1'' [(''name'', TextV ''New'')])) ''c1'') =
     Inr ([(''handle'', TextV ''c1''), (''name'', TextV ''New''), (''description'', TextV ''Desc1''),
           (''numEmployees'', IntV 1), (''logoUrl'', TextV ''http://c1.img'')],
          [[(''id'', IntV 1), (''title'', TextV ''j3''), (''salary'', IntV 3),
            (''equity'', NumV 0), (''companyHandle'', TextV ''c1'')],
           [(''id'', IntV 2), (''title'', TextV ''j2''), (''salary'', IntV 5),
            (''equity'', NumV (1 / 10)), (''companyHandle'', TextV ''c1'')],
           [(''id'', IntV 999), (''title'', TextV ''j1''), (''salary'', IntV 5),
            (''equity'', NumV (1 / 10)), (''companyHandle'', TextV ''c1'')]])"
proof -
  have 1: "fst (Company_update test_db ''c2'' [(''handle'', TextV ''zz'')]) =
     Inr [(''handle'', TextV ''zz''), (''name'', TextV ''C2''), (''description'', TextV ''Desc2''),
          (''numEmployees'', IntV 2), (''logoUrl'', TextV ''http://c2.img'')]"
    by code_simp
  have 2: "fst (Company_get (snd (Company_update test_db ''c2'' [(''handle'', TextV ''zz'')])) ''c2'') =
     Inl (NotFoundError ''No company: c2'')"
    by code_simp
  have 3: "fst (Job_update test_db 2 [(''id'', IntV 5)]) =
     Inr [(''id'', IntV 5), (''title'', TextV ''j2''), (''salary'', IntV 5),
          (''equity'', NumV (1 / 10)), (''companyHandle'', TextV ''c1'')]"
    by code_simp
  have 4: "fst (Job_get (snd (Job_update test_db 2 [(''id'', IntV 5)])) 2) =
     Inl (NotFoundError ''No job: 2'')"
    by code_simp
  have 5: "fst (Company_update test_db ''c1'' [(''name'', TextV ''New'')]) =
     Inr [(''handle'', TextV ''c1''), (''name'', TextV ''New''), (''description'', TextV ''Desc1''),
          (''numEmployees'', IntV 1), (''logoUrl'', TextV ''http://c1.img'')]"
    by code_simp
  have 6: "fst (Company_get (snd (Company_update test_db ''c1'' [(''name'', TextV ''New'')])) ''c1'') =
     Inr ([(''handle'', TextV ''c1''), (''name'', TextV ''New''), (''description'', TextV ''Desc1''),
           (''numEmployees'', IntV 1), (''logoUrl'', TextV ''http://c1.img'')],
          [[(''id'', IntV 1), (''title'', TextV ''j3''), (''salary'', IntV 3),
            (''equity'', NumV 0), (''companyHandle'', TextV ''c1'')],
           [(''id'', IntV 2), (''title'', TextV ''j2''), (''salary'', IntV 5),
            (''equity'', NumV (1 / 10)), (''companyHandle'', TextV ''c1'')],
           [(''id'', IntV 999), (''title'', TextV ''j1''), (''salary'', IntV 5),
            (''equity'', NumV (1 / 10)), (''companyHandle'', TextV ''c1'')]])"
    by code_simp
  from 1 2 3 4 5 6 show ?thesis by (intro conjI)
qed

text \<open>
  The \<open>update\<close> tests of the two managers on the example store, followed by \<open>get\<close>.
\<close>

theorem update_returns_stored_record_witness:
  "set (map fst [(''name'', TextV ''New''), (''numEmployees'', Null)]) \<subseteq>
     {''name'', ''description'', ''numEmployees'', ''logoUrl''} \<and>
   set (map fst [(''title'', TextV ''updated''), (''salary'', IntV 15), (''equity'', Null)]) \<subseteq>
     {''title'', ''salary'', ''equity''} \<and>
   distinct (map c_handle (companies test_db)) \<and>
   fst (Company_update test_db ''c1'' [(''name'', TextV ''New''), (''numEmployees'', Null)]) =
     Inr [(''handle'', TextV ''c1''), (''name'', TextV ''New''), (''description'', TextV ''Desc1''),
          (''numEmployees'', Null), (''logoUrl'', TextV ''http://c1.img'')] \<and>
   Company_get
     (snd (Company_update test_db ''c1'' [(''name'', TextV ''New''), (''numEmployees'', Null)]))
     ''c1'' =
     (Inr ([(''handle'', TextV ''c1''), (''name'', TextV ''New''),
            (''description'', TextV ''Desc1''), (''numEmployees'', Null),
            (''logoUrl'', TextV ''http://c1.img'')],
           [[(''id'', IntV 1), (''title'', TextV ''j3''), (''salary'', IntV 3),
             (''equity'', NumV 0), (''companyHandle'', TextV ''c1'')],
            [(''id'', IntV 2), (''title'', TextV ''j2''), (''salary'', IntV 5),
             (''equity'', NumV (1 / 10)), (''companyHandle'', TextV ''c1'')],
            [(''id'', IntV 999), (''title'', TextV ''j1''), (''salary'', IntV 5),
             (''equity'', NumV (1 / 10)), (''companyHandle'', TextV ''c1'')]]),
      snd (Company_update test_db ''c1'' [(''name'', TextV ''New''), (''numEmployees'', Null)])) \<and>
   fst (Job_update test_db 999 [(''title'', TextV ''updated''), (''salary'', IntV 15), (''equity'', Null)]) =
     Inr [(''id'', IntV 999), (''title'', TextV ''updated''), (''salary'', IntV 15),
          (''equity'', Null), (''companyHandle'', TextV ''c1'')] \<and>
   Job_get
     (snd (Job_update test_db 999 [(''title'', TextV ''updated''), (''salary'', IntV 15), (''equity'', Null)]))
     999 =
     (Inr [(''id'', IntV 999), (''title'', TextV ''updated''), (''salary'', IntV 15),
           (''equity'', Null), (''companyHandle'', TextV ''c1'')],
      snd (Job_update test_db 999 [(''title'', TextV ''updated''), (''salary'', IntV 15), (''equity'', Null)]))"
proof -
  let ?cd = "[(''name'', TextV ''New''), (''numEmployees'', Null)]"
  let ?jd = "[(''title'', TextV ''updated''), (''salary'', IntV 15), (''equity'', Null)]"
  let ?r = "[(''handle'', TextV ''c1''), (''name'', TextV ''New''), (''description'', TextV ''Desc1''),
          (''numEmployees'', Null), (''logoUrl'', TextV ''http://c1.img'')]"
  let ?q = "[(''id'', IntV 999), (''title'', TextV ''updated''), (''salary'', IntV 15),
          (''equity'', Null), (''companyHandle'', TextV ''c1'')]"
  let ?js = "[[(''id'', IntV 1), (''title'', TextV ''j3''), (''salary'', IntV 3),
             (''equity'', NumV 0), (''companyHandle'', TextV ''c1'')],
            [(''id'', IntV 2), (''title'', TextV ''j2''), (''salary'', IntV 5),
             (''equity'', NumV (1 / 10)), (''companyHandle'', TextV ''c1'')],
            [(''id'', IntV 999), (''title'', TextV ''j1''), (''salary'', IntV 5),
             (''equity'', NumV (1 / 10)), (''companyHandle'', TextV ''c1'')]]"
  let ?d' = "snd (Company_update test_db ''c1'' ?cd)"
  let ?e' = "snd (Job_update test_db 999 ?jd)"
  have c: "fst (Company_update test_db ''c1'' ?cd) = Inr ?r"
    by code_simp
  have j: "fst (Job_update test_db 999 ?jd) = Inr ?q"
    by code_simp
  have jobs: "map job_cols (filter (\<lambda>j. j_company_handle j = ''c1'') (jobs ?d')) = ?js"
    by code_simp
  have ck: "set (map fst ?cd) \<subseteq> {''name'', ''description'', ''numEmployees'', ''logoUrl''}"
    and jk: "set (map fst ?jd) \<subseteq> {''title'', ''salary'', ''equity''}"
    by simp_all
  have dist: "distinct (map c_handle (companies test_db))"
    by (simp add: test_db_def)
  have cu: "Company_update test_db ''c1'' ?cd = (Inr ?r, ?d')"
    using c by (metis prod.collapse)
  have ju: "Job_update test_db 999 ?jd = (Inr ?q, ?e')"
    using j by (metis prod.collapse)
  note t = update_returns_stored_record[OF ck jk, of test_db "''c1''" ?r ?d' test_db 999 ?q ?e']
  from t have "Company_update test_db ''c1'' ?cd = (Inr ?r, ?d') \<longrightarrow>
      (\<exists>c. c \<in> set (companies ?d') \<and> c_handle c = ''c1'' \<and> ?r = company_cols c \<and>
           (\<exists>js. Company_get ?d' ''c1'' = (Inr (?r, js), ?d')) \<and>
           (distinct (map c_handle (companies test_db)) \<longrightarrow>
              Company_get ?d' ''c1'' =
                (Inr (?r, map job_cols (filter (\<lambda>j. j_company_handle j = ''c1'') (jobs ?d'))), ?d')))"
    by (rule conjunct1)
  from this cu have "\<exists>c. c \<in> set (companies ?d') \<and> c_handle c = ''c1'' \<and> ?r = company_cols c \<and>
           (\<exists>js. Company_get ?d' ''c1'' = (Inr (?r, js), ?d')) \<and>
           (distinct (map c_handle (companies test_db)) \<longrightarrow>
              Company_get ?d' ''c1'' =
                (Inr (?r, map job_cols (filter (\<lambda>j. j_company_handle j = ''c1'') (jobs ?d'))), ?d'))"
    by (rule mp)
  then have 1: "Company_get ?d' ''c1'' = (Inr (?r, ?js), ?d')"
  proof (elim exE conjE)
    assume i: "distinct (map c_handle (companies test_db)) \<longrightarrow>
              Company_get ?d' ''c1'' =
                (Inr (?r, map job_cols (filter (\<lambda>j. j_company_handle j = ''c1'') (jobs ?d'))), ?d')"
    from i dist have "Company_get ?d' ''c1'' =
                (Inr (?r, map job_cols (filter (\<lambda>j. j_company_handle j = ''c1'') (jobs ?d'))), ?d')"
      by (rule mp)
    then show ?thesis
      by (simp only: jobs)
  qed
  from t have "Job_update test_db 999 ?jd = (Inr ?q, ?e') \<longrightarrow>
      (\<exists>j. j \<in> set (jobs ?e') \<and> j_id j = 999 \<and> ?q = job_cols j \<and>
           Job_get ?e' 999 = (Inr ?q, ?e'))"
    by (rule conjunct2)
  from this ju have "\<exists>j. j \<in> set (jobs ?e') \<and> j_id j = 999 \<and> ?q = job_cols j \<and>
           Job_get ?e' 999 = (Inr ?q, ?e')"
    by (rule mp)
  then have 2: "Job_get ?e' 999 = (Inr ?q, ?e')"
    by (elim exE conjE)
  from ck jk dist c 1 j 2 show ?thesis by (intro conjI)
qed

end
